theory Spec2Isabelle
  imports Complex_Main
begin

section \<open>Numbers, vectors and matrices\<close>

text \<open>
  The objects of \<^verbatim>\<open>src/KatamariDamacy/objects.ts\<close> are animated with JavaScript
  numbers. The embedding computes with reals. A JavaScript number that is not a real
  (the \<^verbatim>\<open>undefined\<close> read past the end of an array, which a typed array stores as NaN,
  and the infinity or NaN of a division by zero) ends the run of the model with an
  \<open>error\<close>. Rounding is written out where a result of the program depends on it: the
  distance \<^verbatim>\<open>vec3.dist\<close> is the double the library returns, and the heights that the bob
  and whack-a-mole motions store in \<open>pos[1]\<close> are rounded as the doubles and the
  \<^verbatim>\<open>Float32Array\<close> round them. Elsewhere the arithmetic is exact, and the sign of zero is
  not modelled.
\<close>

datatype error =
    UndefinedRead int   \<comment> \<open>a waypoint was read at this index, outside the path\<close>
  | DivisionByZero      \<comment> \<open>a quotient with divisor 0: infinity or NaN in JavaScript\<close>
  | TypeError           \<comment> \<open>a property of \<^verbatim>\<open>undefined\<close> was read: JavaScript throws\<close>

type_synonym vec3 = "real \<times> real \<times> real"

text \<open>A \<^verbatim>\<open>mat4\<close> is an array of 16 numbers; it is read by index.\<close>

type_synonym mat4 = "nat \<Rightarrow> real"

datatype Axis = X | Y | Z

fun vget :: "vec3 \<Rightarrow> Axis \<Rightarrow> real" where
  "vget (x, y, z) X = x"
| "vget (x, y, z) Y = y"
| "vget (x, y, z) Z = z"

fun vset :: "vec3 \<Rightarrow> Axis \<Rightarrow> real \<Rightarrow> vec3" where
  "vset (x, y, z) X a = (a, y, z)"
| "vset (x, y, z) Y a = (x, a, z)"
| "vset (x, y, z) Z a = (x, y, a)"

definition js_div :: "real \<Rightarrow> real \<Rightarrow> error + real" where
  "js_div a b = (if b = 0 then Inl DivisionByZero else Inr (a / b))"

text \<open>The remainder \<^verbatim>\<open>a % b\<close> of JavaScript on integers, for a positive \<open>b\<close>: it
  takes the sign of \<open>a\<close>.\<close>

definition js_rem :: "int \<Rightarrow> int \<Rightarrow> int" where
  "js_rem a b = (if 0 \<le> a then a mod b else - ((- a) mod b))"

definition Math_hypot :: "real \<Rightarrow> real \<Rightarrow> real" where
  "Math_hypot a b = sqrt (a * a + b * b)"

definition Math_atan2 :: "real \<Rightarrow> real \<Rightarrow> real" where
  "Math_atan2 y x =
     (if 0 < x then arctan (y / x)
      else if x < 0 then (if 0 \<le> y then arctan (y / x) + pi else arctan (y / x) - pi)
      else if 0 < y then pi / 2
      else if y < 0 then - (pi / 2)
      else 0)"

text \<open>Modelled from the spec: \<^verbatim>\<open>clamp\<close> of \<^verbatim>\<open>MathHelpers\<close> (section 6, "clamp";
  section 7, "clamping to [-1, 1]"), which is not among the sources.\<close>

definition clamp :: "real \<Rightarrow> real \<Rightarrow> real \<Rightarrow> real" where
  "clamp v lo hi = max lo (min v hi)"

subsection \<open>The vector operations of gl-matrix\<close>

definition vec3_sub :: "vec3 \<Rightarrow> vec3 \<Rightarrow> vec3" where
  "vec3_sub a b = (vget a X - vget b X, vget a Y - vget b Y, vget a Z - vget b Z)"

definition vec3_length :: "vec3 \<Rightarrow> real" where
  "vec3_length a = sqrt (vget a X * vget a X + vget a Y * vget a Y + vget a Z * vget a Z)"

definition vec3_scale :: "vec3 \<Rightarrow> real \<Rightarrow> vec3" where
  "vec3_scale a s = (vget a X * s, vget a Y * s, vget a Z * s)"

definition vec3_scaleAndAdd :: "vec3 \<Rightarrow> vec3 \<Rightarrow> real \<Rightarrow> vec3" where
  "vec3_scaleAndAdd a b s =
     (vget a X + vget b X * s, vget a Y + vget b Y * s, vget a Z + vget b Z * s)"

text \<open>\<^verbatim>\<open>vec3.normalize\<close> leaves the zero vector as it is (it divides only when the
  squared length is positive).\<close>

definition vec3_normalize :: "vec3 \<Rightarrow> vec3" where
  "vec3_normalize a =
     (let len = vget a X * vget a X + vget a Y * vget a Y + vget a Z * vget a Z
      in vec3_scale a (if 0 < len then 1 / sqrt len else len))"

definition mat4_identity :: mat4 where
  "mat4_identity = (\<lambda>k. if k \<in> {0, 5, 10, 15} then 1 else 0)"

definition mat4_getTranslation :: "mat4 \<Rightarrow> vec3" where
  "mat4_getTranslation m = (m 12, m 13, m 14)"

text \<open>
  The remaining helpers of \<^verbatim>\<open>MathHelpers\<close> and the matrix functions of gl-matrix are
  not among the sources. The functions of the program take them as a parameter, so that
  every theorem about the program holds for whatever these helpers compute.
  \<open>mat4_fromRotation\<close>, \<open>mat4_rotateX\<close>, ... take the previous contents of their
  output argument first (gl-matrix leaves the output untouched for a degenerate axis).

  The parameter also holds the floating-point arithmetic the embedding writes out:
  \<open>vec3_dist\<close> is the number \<^verbatim>\<open>vec3.dist\<close> returns (a double near the distance),
  \<open>toDouble\<close> rounds the exact result of an arithmetic operation to the double the
  program computes, and \<open>toFloat32\<close> rounds a number to the one a \<^verbatim>\<open>Float32Array\<close>
  stores.
\<close>

record mathlib =
  vec3_dist :: "vec3 \<Rightarrow> vec3 \<Rightarrow> real"
  toDouble :: "real \<Rightarrow> real"
  toFloat32 :: "real \<Rightarrow> real"
  angleDist :: "real \<Rightarrow> real \<Rightarrow> real"
  normToLength :: "vec3 \<Rightarrow> real \<Rightarrow> vec3"
  getMatrixAxisZ :: "mat4 \<Rightarrow> vec3"
  transformVec3Mat4w0 :: "mat4 \<Rightarrow> vec3 \<Rightarrow> vec3"
  mat4_fromRotation :: "mat4 \<Rightarrow> real \<Rightarrow> vec3 \<Rightarrow> mat4"
  mat4_mul :: "mat4 \<Rightarrow> mat4 \<Rightarrow> mat4"
  mat4_rotateX :: "mat4 \<Rightarrow> real \<Rightarrow> mat4"
  mat4_rotateY :: "mat4 \<Rightarrow> real \<Rightarrow> mat4"
  mat4_rotateZ :: "mat4 \<Rightarrow> real \<Rightarrow> mat4"
  TAU :: real

section \<open>The data of an object\<close>

record AABB =
  minX :: real
  minY :: real
  minZ :: real
  maxX :: real
  maxY :: real
  maxZ :: real

text \<open>A \<^verbatim>\<open>BINModelInstance\<close>: its matrix, its rest pose, and the bounding box
  \<^verbatim>\<open>binModelData.binModel.bbox\<close> of its model.\<close>

record BINModelInstance =
  modelMatrix :: mat4
  modelEuler :: vec3
  translation :: vec3
  binModelBBox :: AABB

record MissionSetupObjectSpawn =
  objectId :: int
  spawnMatrix :: mat4
  dispOnAreaNo :: int
  dispOffAreaNo :: int

record ObjectDefinition =
  speedIndex :: int
  stayLevel :: bool

text \<open>\<open>pathPoints\<close> is the flat \<^verbatim>\<open>Float32Array\<close>: four numbers for each waypoint.\<close>

record MotionParameters =
  motionID :: int
  globalMotionIndex :: int
  pathSpeed :: real
  pathPoints :: "real list"

record MotionState =
  parameters :: MotionParameters
  pos :: vec3
  target :: vec3
  velocity :: vec3
  adjustPitch :: bool
  pathIndex :: int
  speed :: real
  euler :: vec3
  eulerStep :: vec3
  eulerTarget :: vec3
  angle :: real
  angleStep :: real
  angleTarget :: real
  base :: mat4
  reference :: mat4
  final :: mat4
  axis :: vec3
  timer :: real
  state :: int

record ObjectRenderer =
  modelInstance :: "BINModelInstance list"
  visible :: bool
  objectSpawn :: MissionSetupObjectSpawn
  bbox :: AABB
  motionState :: "MotionState option"

section \<open>The constructor\<close>

definition speedTable :: "real list" where
  "speedTable = [0.3, 1, 2, 4, 6, 8, 10, 15, 20, 40, 200, 0]"

text \<open>The speed of an object: the speed of its path, or for a negative one the entry of
  \<open>speedTable\<close> its definition selects (an index past the table reads \<^verbatim>\<open>undefined\<close>).\<close>

definition objectSpeed :: "ObjectDefinition \<Rightarrow> MotionParameters \<Rightarrow> error + real" where
  "objectSpeed def motion =
     (if pathSpeed motion < 0 then
        (if 0 \<le> speedIndex def then
           (if nat (speedIndex def) < length speedTable
            then Inr (speedTable ! nat (speedIndex def))
            else Inl (UndefinedRead (speedIndex def)))
         else Inr 0)
      else Inr (pathSpeed motion))"

definition vec3_create :: vec3 where
  "vec3_create = (0, 0, 0)"

definition newMotionState ::
  "MissionSetupObjectSpawn \<Rightarrow> ObjectDefinition \<Rightarrow> MotionParameters \<Rightarrow> error + MotionState" where
  "newMotionState spawn def motion =
     (case objectSpeed def motion of
        Inl e \<Rightarrow> Inl e
      | Inr sp \<Rightarrow> Inr \<lparr>
          parameters = motion,
          pos = mat4_getTranslation (spawnMatrix spawn),
          target = vec3_create,
          velocity = vec3_create,
          adjustPitch = (\<not> stayLevel def),
          pathIndex = - 1,
          speed = sp,
          euler = vec3_create,
          eulerStep = vec3_create,
          eulerTarget = vec3_create,
          angle = 0,
          angleStep = 0,
          angleTarget = 0,
          base = spawnMatrix spawn,
          reference = mat4_identity,
          final = mat4_identity,
          axis = vec3_create,
          timer = - 1,
          state = - 1 \<rparr>)"

section \<open>Animation functions\<close>

definition rotateObject ::
  "mathlib \<Rightarrow> BINModelInstance \<Rightarrow> real \<Rightarrow> Axis \<Rightarrow> real \<Rightarrow> BINModelInstance" where
  "rotateObject M inst deltaTimeInFrames ax v =
     (let ang = (v / - 60) * deltaTimeInFrames
      in inst\<lparr>
           modelMatrix :=
             (case ax of
                X \<Rightarrow> mat4_rotateX M (modelMatrix inst) ang
              | Y \<Rightarrow> mat4_rotateY M (modelMatrix inst) ang
              | Z \<Rightarrow> mat4_rotateZ M (modelMatrix inst) ang),
           modelEuler := vset (modelEuler inst) ax (vget (modelEuler inst) ax + ang) \<rparr>)"

text \<open>\<^verbatim>\<open>rotateObject(object.modelInstance[k], ...)\<close>: a missing sub-model is
  \<^verbatim>\<open>undefined\<close>, and reading its matrix throws.\<close>

definition rotateInstance ::
  "mathlib \<Rightarrow> ObjectRenderer \<Rightarrow> nat \<Rightarrow> real \<Rightarrow> Axis \<Rightarrow> real \<Rightarrow> error + ObjectRenderer" where
  "rotateInstance M object k deltaTimeInFrames ax v =
     (if k < length (modelInstance object)
      then Inr (object\<lparr>modelInstance :=
             (modelInstance object)[k := rotateObject M (modelInstance object ! k) deltaTimeInFrames ax v]\<rparr>)
      else Inl TypeError)"

definition HUKUBIKI_C :: int where "HUKUBIKI_C = 0x0023"
definition COMPASS_A :: int where "COMPASS_A = 0x002F"
definition CAR02_F :: int where "CAR02_F = 0x0091"
definition CAR03_F :: int where "CAR03_F = 0x0092"
definition CAR04_F :: int where "CAR04_F = 0x0093"
definition CAR05_E :: int where "CAR05_E = 0x0094"
definition CAR06_E :: int where "CAR06_E = 0x0095"
definition CAR07_E :: int where "CAR07_E = 0x0096"
definition DUSTCAR_F :: int where "DUSTCAR_F = 0x0133"
definition TRUCK01_F :: int where "TRUCK01_F = 0x0135"
definition BUS01_F :: int where "BUS01_F = 0x0136"
definition BIKE01_D :: int where "BIKE01_D = 0x0156"
definition BIKE02_D :: int where "BIKE02_D = 0x0157"
definition BIKE03_D :: int where "BIKE03_D = 0x0165"
definition SHOPHUGU02_D :: int where "SHOPHUGU02_D = 0x0189"
definition CAR08_F :: int where "CAR08_F = 0x01A2"
definition WORKCAR06_F :: int where "WORKCAR06_F = 0x01AB"
definition BIKE04_E :: int where "BIKE04_E = 0x01B2"
definition BIKE05_E :: int where "BIKE05_E = 0x01B3"
definition RADICON02_E :: int where "RADICON02_E = 0x0220"
definition BIKE06_E :: int where "BIKE06_E = 0x02B0"
definition WINDMILL01_G :: int where "WINDMILL01_G = 0x02C6"
definition KIDDYCAR01_C :: int where "KIDDYCAR01_C = 0x02F1"
definition KIDDYCAR02_C :: int where "KIDDYCAR02_C = 0x02F2"
definition PLANE02_F :: int where "PLANE02_F = 0x0382"
definition PLANE03_F :: int where "PLANE03_F = 0x0383"
definition ZOKUCAR_E :: int where "ZOKUCAR_E = 0x0405"

text \<open>The animation functions \<^verbatim>\<open>animFuncSelect\<close> returns, by name.\<close>

datatype AnimFunc =
    AnimFunc_HUKUBIKI_C
  | AnimFunc_COMPASS_A
  | AnimFunc_WINDMILL01_G
  | VehicleAnimFunc
  | AnimFunc_PLANE02_F
  | AnimFunc_PLANE03_F

definition vehicleIds :: "int list" where
  "vehicleIds =
     [CAR02_F, CAR03_F, CAR04_F, CAR05_E, CAR06_E, CAR07_E, CAR08_F, DUSTCAR_F, TRUCK01_F,
      BUS01_F, BIKE01_D, BIKE02_D, BIKE03_D, BIKE04_E, BIKE05_E, BIKE06_E, RADICON02_E,
      KIDDYCAR01_C, KIDDYCAR02_C, ZOKUCAR_E]"

definition animFuncSelect :: "int \<Rightarrow> AnimFunc option" where
  "animFuncSelect oid =
     (if oid = HUKUBIKI_C then Some AnimFunc_HUKUBIKI_C
      else if oid = COMPASS_A then Some AnimFunc_COMPASS_A
      else if oid = WINDMILL01_G then Some AnimFunc_WINDMILL01_G
      else if oid \<in> set vehicleIds then Some VehicleAnimFunc
      else if oid = PLANE02_F then Some AnimFunc_PLANE02_F
      else if oid = PLANE03_F then Some AnimFunc_PLANE03_F
      else None)"

definition animFunc_HUKUBIKI_C :: "mathlib \<Rightarrow> ObjectRenderer \<Rightarrow> real \<Rightarrow> error + ObjectRenderer" where
  "animFunc_HUKUBIKI_C M object deltaTimeInFrames =
     rotateInstance M object 1 deltaTimeInFrames Z 1.0"

definition animFunc_COMPASS_A :: "mathlib \<Rightarrow> ObjectRenderer \<Rightarrow> real \<Rightarrow> error + ObjectRenderer" where
  "animFunc_COMPASS_A M object deltaTimeInFrames =
     rotateInstance M object 1 deltaTimeInFrames Y 1.0"

definition animFunc_WINDMILL01_G :: "mathlib \<Rightarrow> ObjectRenderer \<Rightarrow> real \<Rightarrow> error + ObjectRenderer" where
  "animFunc_WINDMILL01_G M object deltaTimeInFrames =
     rotateInstance M object 1 deltaTimeInFrames Z 12.0"

definition animFunc_PLANE02_F :: "mathlib \<Rightarrow> ObjectRenderer \<Rightarrow> real \<Rightarrow> error + ObjectRenderer" where
  "animFunc_PLANE02_F M object deltaTimeInFrames =
     (case rotateInstance M object 1 deltaTimeInFrames Y 16.8 of
        Inl e \<Rightarrow> Inl e
      | Inr object1 \<Rightarrow> rotateInstance M object1 2 deltaTimeInFrames X 16.8)"

definition animFunc_PLANE03_F :: "mathlib \<Rightarrow> ObjectRenderer \<Rightarrow> real \<Rightarrow> error + ObjectRenderer" where
  "animFunc_PLANE03_F M object deltaTimeInFrames =
     (case rotateInstance M object 0 deltaTimeInFrames Z 16.8 of
        Inl e \<Rightarrow> Inl e
      | Inr object1 \<Rightarrow> rotateInstance M object1 2 deltaTimeInFrames Z 16.8)"

definition vehicleAnimFunc :: "mathlib \<Rightarrow> ObjectRenderer \<Rightarrow> real \<Rightarrow> error + ObjectRenderer" where
  "vehicleAnimFunc M object deltaTimeInFrames =
     (case motionState object of
        None \<Rightarrow> Inr object
      | Some _ \<Rightarrow>
          (case rotateInstance M object 1 deltaTimeInFrames X (- 4.0) of
             Inl e \<Rightarrow> Inl e
           | Inr object1 \<Rightarrow> rotateInstance M object1 2 deltaTimeInFrames X (- 4.0)))"

text \<open>\<^verbatim>\<open>this.animFunc(this, deltaTimeInFrames)\<close> of \<^verbatim>\<open>prepareToRender\<close>.\<close>

fun callAnimFunc :: "AnimFunc \<Rightarrow> mathlib \<Rightarrow> ObjectRenderer \<Rightarrow> real \<Rightarrow> error + ObjectRenderer" where
  "callAnimFunc AnimFunc_HUKUBIKI_C = animFunc_HUKUBIKI_C"
| "callAnimFunc AnimFunc_COMPASS_A = animFunc_COMPASS_A"
| "callAnimFunc AnimFunc_WINDMILL01_G = animFunc_WINDMILL01_G"
| "callAnimFunc VehicleAnimFunc = vehicleAnimFunc"
| "callAnimFunc AnimFunc_PLANE02_F = animFunc_PLANE02_F"
| "callAnimFunc AnimFunc_PLANE03_F = animFunc_PLANE03_F"

text \<open>The constructor stores \<^verbatim>\<open>animFuncSelect(this.objectSpawn.objectId)\<close>, and
  \<^verbatim>\<open>prepareToRender\<close> calls the function when there is one.\<close>

definition runAnimFunc :: "mathlib \<Rightarrow> ObjectRenderer \<Rightarrow> real \<Rightarrow> error + ObjectRenderer" where
  "runAnimFunc M object deltaTimeInFrames =
     (case animFuncSelect (objectId (objectSpawn object)) of
        None \<Rightarrow> Inr object
      | Some f \<Rightarrow> callAnimFunc f M object deltaTimeInFrames)"

section \<open>The motion functions of the kind MISC\<close>


text \<open>The height \<^verbatim>\<open>spawn + maxY * .15 * Math.sin(angle)\<close> of the bob motion, as the
  program computes and stores it: the literal and each product and sum are doubles, and
  the store into \<open>pos\<close> rounds to a float32.\<close>

definition bobHeight :: "mathlib \<Rightarrow> real \<Rightarrow> real \<Rightarrow> real \<Rightarrow> real" where
  "bobHeight M spawnY bboxMaxY a =
     toFloat32 M (toDouble M (spawnY +
       toDouble M (toDouble M (bboxMaxY * toDouble M 0.15) * sin a)))"

definition miscBobMotionFunc ::
  "mathlib \<Rightarrow> ObjectRenderer \<Rightarrow> real \<Rightarrow> real \<Rightarrow> MotionState \<Rightarrow> MotionState \<times> bool" where
  "miscBobMotionFunc M object deltaTimeInFrames rnd motion =
     (let m1 = (if timer motion = - 1 then motion\<lparr>timer := rnd * 60\<rparr> else motion) in
      (if timer m1 < deltaTimeInFrames then
         (let a = angle m1 + deltaTimeInFrames * pi / 45
          in m1\<lparr>angle := a,
                pos := vset (pos m1) Y
                  (bobHeight M (spawnMatrix (objectSpawn object) 13) (maxY (bbox object)) a)\<rparr>)
       else m1\<lparr>timer := timer m1 - deltaTimeInFrames\<rparr>,
       False))"



text \<open>The block of \<^verbatim>\<open>miscWhackAMoleMotionFunc\<close> that restarts the cycle, run when the
  function is entered with \<^verbatim>\<open>timer === -1\<close>.\<close>

definition whackRestart :: "real \<Rightarrow> MotionState \<Rightarrow> MotionState" where
  "whackRestart rnd motion =
     motion\<lparr>timer := rnd * 150 + 60,
            angle := pi / 2,
            state := js_rem (state motion + 1) 2,
            angleStep := pi / 45\<rparr>"

text \<open>The rest of the function: the timer runs down, then the object moves.\<close>

definition buriedDepthOf :: "mathlib \<Rightarrow> AABB \<Rightarrow> real" where
  "buriedDepthOf M firstBBox =
     toDouble M (maxY firstBBox + toDouble M (maxY firstBBox - minY firstBBox))"

text \<open>The height \<^verbatim>\<open>spawn + buriedDepth * (state === 0 ? 1 - sin : sin)\<close> of the
  whack-a-mole motion, as the program computes and stores it.\<close>

definition whackHeight :: "mathlib \<Rightarrow> real \<Rightarrow> real \<Rightarrow> int \<Rightarrow> real \<Rightarrow> real" where
  "whackHeight M spawnY buriedDepth st a =
     toFloat32 M (toDouble M (spawnY +
       toDouble M (buriedDepth * (if st = 0 then toDouble M (1 - sin a) else sin a))))"

definition whackMove :: "mathlib \<Rightarrow> ObjectRenderer \<Rightarrow> real \<Rightarrow> MotionState \<Rightarrow> error + MotionState" where
  "whackMove M object deltaTimeInFrames motion =
     (if timer motion < deltaTimeInFrames then
        (let a = angle motion + angleStep motion * deltaTimeInFrames;
             m1 = (if pi < a then motion\<lparr>angle := 0, timer := - 1\<rparr> else motion\<lparr>angle := a\<rparr>)
         in case modelInstance object of
              [] \<Rightarrow> Inl TypeError
            | inst # _ \<Rightarrow>
                (let firstBBox = binModelBBox inst;
                     buriedDepth = buriedDepthOf M firstBBox
                 in Inr (m1\<lparr>pos := vset (pos m1) Y
                      (whackHeight M (spawnMatrix (objectSpawn object) 13) buriedDepth
                         (state m1) (angle m1))\<rparr>)))
      else Inr (motion\<lparr>timer := timer motion - deltaTimeInFrames\<rparr>))"

definition miscWhackAMoleMotionFunc ::
  "mathlib \<Rightarrow> ObjectRenderer \<Rightarrow> real \<Rightarrow> real \<Rightarrow> MotionState \<Rightarrow> error + MotionState \<times> bool" where
  "miscWhackAMoleMotionFunc M object deltaTimeInFrames rnd motion =
     (case whackMove M object deltaTimeInFrames
             (if timer motion = - 1 then whackRestart rnd motion else motion) of
        Inl e \<Rightarrow> Inl e
      | Inr m \<Rightarrow> Inr (m, False))"

section \<open>Following a path\<close>

text \<open>\<^verbatim>\<open>pathPoint(dst, path, i)\<close>: the three coordinates of waypoint \<open>i\<close>. Outside
  the array the read is \<^verbatim>\<open>undefined\<close>.\<close>

definition pathPoint :: "real list \<Rightarrow> int \<Rightarrow> error + vec3" where
  "pathPoint path i =
     (if 0 \<le> i \<and> nat (4 * i + 2) < length path
      then Inr (path ! nat (4 * i + 0), path ! nat (4 * i + 1), path ! nat (4 * i + 2))
      else Inl (UndefinedRead i))"

text \<open>The loop of \<^verbatim>\<open>findPathStartIndex\<close>, from \<open>i\<close> on; its variables are
  \<open>(minPoint, secPoint, secDist, minDist)\<close>.\<close>

function findPathLoop ::
  "mathlib \<Rightarrow> vec3 \<Rightarrow> real list \<Rightarrow> nat \<Rightarrow> int \<times> int \<times> real \<times> real
     \<Rightarrow> error + int \<times> int \<times> real \<times> real" where
  "findPathLoop M p path i (minPoint, secPoint, secDist, minDist) =
     (if 4 * i < length path then
        (case pathPoint path (int i) of
           Inl e \<Rightarrow> Inl e
         | Inr pathScratch \<Rightarrow>
             (let d = vec3_dist M p pathScratch in
              if d < minDist then findPathLoop M p path (i + 1) (int i, minPoint, minDist, d)
              else if secPoint < 0 \<or> d < secDist
                then findPathLoop M p path (i + 1) (minPoint, int i, d, minDist)
              else findPathLoop M p path (i + 1) (minPoint, secPoint, secDist, minDist)))
      else Inr (minPoint, secPoint, secDist, minDist))"
  by pat_completeness auto
termination
  by (relation "measure (\<lambda>(M, p, path, i, st). length path - 4 * i)") auto

declare findPathLoop.simps [simp del]

definition findPathStartIndex :: "mathlib \<Rightarrow> vec3 \<Rightarrow> real list \<Rightarrow> error + int" where
  "findPathStartIndex M p path =
     (case pathPoint path 0 of
        Inl e \<Rightarrow> Inl e
      | Inr pathScratch \<Rightarrow>
          (case findPathLoop M p path 1 (0, - 1, 0, vec3_dist M p pathScratch) of
             Inl e \<Rightarrow> Inl e
           | Inr (minPoint, secPoint, secDist, minDist) \<Rightarrow>
               if minPoint = 0 \<and> secPoint \<noteq> 1 then Inr 0
               else if secPoint = 0 \<and> minPoint \<noteq> 1 then Inr 0
               else Inr (max minPoint secPoint)))"

text \<open>The two quotients of \<^verbatim>\<open>targetNextPoint\<close>: the yaw step
  \<^verbatim>\<open>angleDist(...) / framesUntilYaw\<close> and the pitch step
  \<^verbatim>\<open>angleTarget / framesUntilPitch\<close>.\<close>

definition yawStep :: "mathlib \<Rightarrow> real \<Rightarrow> real \<Rightarrow> real \<Rightarrow> real \<Rightarrow> error + real" where
  "yawStep M yaw yawTarget distToTarget sp =
     (case js_div distToTarget (if sp = 0 then 30 else sp) of
        Inl e \<Rightarrow> Inl e
      | Inr framesUntilYaw \<Rightarrow> js_div (angleDist M yaw yawTarget) framesUntilYaw)"

definition pitchStep :: "real \<Rightarrow> real \<Rightarrow> real \<Rightarrow> error + real" where
  "pitchStep pitchTarget distToTarget sp =
     (case (if sp = 0 then Inr 4 else js_div (0.25 * distToTarget) sp) of
        Inl e \<Rightarrow> Inl e
      | Inr framesUntilPitch \<Rightarrow> js_div pitchTarget framesUntilPitch)"

definition targetNextPoint :: "mathlib \<Rightarrow> MotionState \<Rightarrow> real \<Rightarrow> error + MotionState" where
  "targetNextPoint M motion yOffset =
     (let path = pathPoints (parameters motion);
          pos1 = target motion;
          i1 = pathIndex motion + 1;
          i2 = (if i1 * 4 = int (length path) then 0 else i1)
      in case pathPoint path i2 of
           Inl e \<Rightarrow> Inl e
         | Inr pt \<Rightarrow>
            (let tgt = vset pt Y (vget pt Y - yOffset);
                 vel = vec3_sub tgt pos1;
                 distToTarget = vec3_length vel;
                 pathScratch = getMatrixAxisZ M (final motion);
                 yaw = Math_atan2 (vget pathScratch X) (vget pathScratch Z);
                 yawTarget = pi + Math_atan2 (vget vel X) (vget vel Z)
             in case yawStep M yaw yawTarget distToTarget (speed motion) of
                  Inl e \<Rightarrow> Inl e
                | Inr step \<Rightarrow>
                   (let m1 = motion\<lparr>
                          pos := pos1, pathIndex := i2, target := tgt,
                          euler := vset (euler motion) Y yaw,
                          eulerTarget := vset (eulerTarget motion) Y yawTarget,
                          eulerStep := vset (eulerStep motion) Y step\<rparr>
                    in if adjustPitch motion then
                         (let ax = vec3_normalize (vget vel Z, 0, - vget vel X);
                              v = vec3_normalize vel;
                              ps = vec3_normalize pathScratch;
                              dot = - vget v Y * vget ps Y +
                                Math_hypot (vget v X) (vget v Z) * Math_hypot (vget ps X) (vget ps Z);
                              a0 = arccos (clamp dot (- 1) 1);
                              a = (if - vget v Y < vget ps Y then a0 * - 1 else a0)
                          in case pitchStep a distToTarget (speed motion) of
                               Inl e \<Rightarrow> Inl e
                             | Inr pstep \<Rightarrow>
                                 Inr (m1\<lparr>reference := base motion, axis := ax,
                                         angleTarget := a, angleStep := pstep, angle := 0,
                                         velocity := normToLength M v (speed motion)\<rparr>))
                       else Inr (m1\<lparr>velocity := normToLength M vel (speed motion)\<rparr>))))"

text \<open>\<^verbatim>\<open>adjustBasePitch\<close> works on the motion state and on the module's matrix
  \<^verbatim>\<open>pitchTransformScratch\<close>, the first component of the pair.\<close>

definition adjustBasePitch :: "mathlib \<Rightarrow> real \<Rightarrow> mat4 \<times> MotionState \<Rightarrow> mat4 \<times> MotionState" where
  "adjustBasePitch M deltaTimeInFrames sm =
     (let pitchTransformScratch = fst sm; motion = snd sm in
      if angleStep motion * deltaTimeInFrames = 0 then (pitchTransformScratch, motion)
      else
        (let a = angle motion + angleStep motion * deltaTimeInFrames;
             delta = (angleTarget motion - a) * angleStep motion
         in if delta < 0 then
              (let pitch = - Math_atan2 (vget (velocity motion) Y)
                     (Math_hypot (vget (velocity motion) X) (vget (velocity motion) Z))
               in (pitchTransformScratch,
                   motion\<lparr>angleStep := 0, angle := angleTarget motion,
                          base := mat4_fromRotation M (base motion) pitch (axis motion)\<rparr>))
            else
              (let scratch1 = mat4_fromRotation M pitchTransformScratch a (axis motion)
               in (scratch1,
                   motion\<lparr>angle := a, base := mat4_mul M (reference motion) scratch1\<rparr>))))"

text \<open>The first block of \<^verbatim>\<open>followPath\<close>, run when \<^verbatim>\<open>pathIndex < 0\<close>.\<close>

definition followPathStart :: "mathlib \<Rightarrow> ObjectRenderer \<Rightarrow> MotionState \<Rightarrow> error + MotionState" where
  "followPathStart M object motion =
     (let path = pathPoints (parameters motion) in
      case findPathStartIndex M (pos motion) path of
        Inl e \<Rightarrow> Inl e
      | Inr start \<Rightarrow>
         (case pathPoint path start of
            Inl e \<Rightarrow> Inl e
          | Inr p0 \<Rightarrow>
             (let pos1 = vset p0 Y (vget p0 Y - maxY (bbox object));
                  i1 = start + 1
              in case pathPoint path i1 of
                   Inl e \<Rightarrow> Inl e
                 | Inr p1 \<Rightarrow>
                    (let tgt = vset p1 Y (vget p1 Y - maxY (bbox object));
                         yaw = pi + Math_atan2 (vget tgt X - vget pos1 X) (vget tgt Z - vget pos1 Z)
                     in Inr (motion\<lparr>
                          base := mat4_identity, pathIndex := i1, pos := pos1, target := tgt,
                          euler := vset (euler motion) Y yaw,
                          velocity := normToLength M (vec3_sub tgt pos1) (speed motion)\<rparr>)))))"

text \<open>The yaw step of \<^verbatim>\<open>followPath\<close>: advance, and snap to the target when the sign
  of the step differs from the sign of the remaining angular distance.\<close>

definition advanceYaw :: "mathlib \<Rightarrow> real \<Rightarrow> MotionState \<Rightarrow> MotionState" where
  "advanceYaw M deltaTimeInFrames motion =
     (let yaw = vget (euler motion) Y + vget (eulerStep motion) Y * deltaTimeInFrames in
      if sgn (vget (eulerStep motion) Y) \<noteq> sgn (angleDist M yaw (vget (eulerTarget motion) Y))
      then motion\<lparr>euler := vset (euler motion) Y (vget (eulerTarget motion) Y),
                  eulerStep := vset (eulerStep motion) Y 0\<rparr>
      else motion\<lparr>euler := vset (euler motion) Y yaw\<rparr>)"

text \<open>\<^verbatim>\<open>followPath\<close> throws nowhere and always returns \<^verbatim>\<open>true\<close>: the second
  component. The first is the state it leaves (with \<^verbatim>\<open>pitchTransformScratch\<close>), or the
  reason why that state is not one of real numbers.\<close>

definition followPath ::
  "mathlib \<Rightarrow> ObjectRenderer \<Rightarrow> real \<Rightarrow> mat4 \<times> MotionState \<Rightarrow> (error + mat4 \<times> MotionState) \<times> bool" where
  "followPath M object deltaTimeInFrames sm =
     ((case (if pathIndex (snd sm) < 0 then followPathStart M object (snd sm) else Inr (snd sm)) of
         Inl e \<Rightarrow> Inl e
       | Inr m1 \<Rightarrow>
          (let sm2 = (if adjustPitch m1 then adjustBasePitch M deltaTimeInFrames (fst sm, m1)
                      else (fst sm, m1))
           in case (if vec3_dist M (target (snd sm2)) (pos (snd sm2)) \<le> speed (snd sm2) * deltaTimeInFrames
                    then targetNextPoint M (snd sm2) (maxY (bbox object))
                    else Inr (snd sm2)) of
                Inl e \<Rightarrow> Inl e
              | Inr m3 \<Rightarrow>
                 (let m4 = advanceYaw M deltaTimeInFrames m3
                  in Inr (fst sm2,
                          m4\<lparr>pos := vec3_scaleAndAdd (pos m4) (velocity m4) deltaTimeInFrames\<rparr>)))),
      True)"

section \<open>Selecting the motion function\<close>

definition COLLISION_PATH :: int where "COLLISION_PATH = 0x02"
definition MISC :: int where "MISC = 0x16"
definition SIMPLE_PATH :: int where "SIMPLE_PATH = 0x1D"

datatype MotionFunc =
    FollowPath
  | MiscSpinMotionFunc
  | MiscBobMotionFunc
  | MiscFlipMotionFunc
  | MiscSwayMotionFunc
  | MiscWhackAMoleMotionFunc

definition motionFuncSelect :: "int \<Rightarrow> int \<Rightarrow> MotionFunc option" where
  "motionFuncSelect mid globalMoveIndex =
     (if mid = COLLISION_PATH \<or> mid = SIMPLE_PATH then Some FollowPath
      else if mid = MISC then
        (if globalMoveIndex = 0x15 then Some MiscSpinMotionFunc
         else if globalMoveIndex = 0x16 then Some MiscBobMotionFunc
         else if globalMoveIndex = 0x1E then Some MiscFlipMotionFunc
         else if globalMoveIndex = 0x20 then Some MiscSwayMotionFunc
         else if globalMoveIndex = 0x22 then Some MiscWhackAMoleMotionFunc
         else None)
      else None)"

section \<open>An instance of the helpers\<close>

text \<open>
  The closed theorems below (the evaluations of the program at concrete inputs) need the
  helpers at hand. The following definitions give them; no other theorem depends on them.
\<close>

text \<open>Modelled from the spec: \<^verbatim>\<open>angleDist\<close> of \<^verbatim>\<open>MathHelpers\<close>, which is not among
  the sources ("angular-distance (shortest signed difference between two angles)",
  section 6): the difference \<open>v1 - v0\<close> reduced to the interval from \<open>- pi\<close> to \<open>pi\<close>.\<close>

definition angleDist_spec :: "real \<Rightarrow> real \<Rightarrow> real" where
  "angleDist_spec v0 v1 =
     (let d = v1 - v0 in d - 2 * pi * of_int \<lfloor>(d + pi) / (2 * pi)\<rfloor>)"

text \<open>Modelled from the spec: \<^verbatim>\<open>normToLength\<close> of \<^verbatim>\<open>MathHelpers\<close>, which is not
  among the sources ("normalize-to-length", section 6; "normalize velocity to exactly
  \<^verbatim>\<open>speed\<close> magnitude", section 4.3). The zero vector has no direction and is kept.\<close>

definition normToLength_spec :: "vec3 \<Rightarrow> real \<Rightarrow> vec3" where
  "normToLength_spec v len =
     (let vlen = vec3_length v in if 0 < vlen then vec3_scale v (len / vlen) else v)"

text \<open>Modelled from the spec: \<^verbatim>\<open>getMatrixAxisZ\<close> and \<^verbatim>\<open>transformVec3Mat4w0\<close> of
  \<^verbatim>\<open>MathHelpers\<close>, which are not among the sources ("get-axis" and
  "transform-direction-by-matrix (ignoring translation)", section 6), on the column-major
  layout of gl-matrix.\<close>

definition getMatrixAxisZ_spec :: "mat4 \<Rightarrow> vec3" where
  "getMatrixAxisZ_spec m = (m 8, m 9, m 10)"

definition transformVec3Mat4w0_spec :: "mat4 \<Rightarrow> vec3 \<Rightarrow> vec3" where
  "transformVec3Mat4w0_spec m v =
     (m 0 * vget v X + m 4 * vget v Y + m 8 * vget v Z,
      m 1 * vget v X + m 5 * vget v Y + m 9 * vget v Z,
      m 2 * vget v X + m 6 * vget v Y + m 10 * vget v Z)"

text \<open>The matrix functions of gl-matrix, an external library: the product, the rotation
  about an axis (the output is left as it is when the axis is shorter than the library's
  \<open>EPSILON\<close>), and the rotations about the coordinate axes.\<close>

definition mat4_of_list :: "real list \<Rightarrow> mat4" where
  "mat4_of_list xs = (\<lambda>k. if k < length xs then xs ! k else 0)"

definition gl_mul :: "mat4 \<Rightarrow> mat4 \<Rightarrow> mat4" where
  "gl_mul a b =
     (\<lambda>k. if k < 16
          then a (k mod 4) * b (4 * (k div 4)) + a (4 + k mod 4) * b (4 * (k div 4) + 1) +
               a (8 + k mod 4) * b (4 * (k div 4) + 2) + a (12 + k mod 4) * b (4 * (k div 4) + 3)
          else 0)"

definition gl_EPSILON :: real where
  "gl_EPSILON = 0.000001"

definition gl_fromRotation :: "mat4 \<Rightarrow> real \<Rightarrow> vec3 \<Rightarrow> mat4" where
  "gl_fromRotation out rad ax =
     (let len = vec3_length ax in
      if len < gl_EPSILON then out
      else
        (let x = vget ax X / len; y = vget ax Y / len; z = vget ax Z / len;
             s = sin rad; c = cos rad; t = 1 - c
         in mat4_of_list
              [x * x * t + c, y * x * t + z * s, z * x * t - y * s, 0,
               x * y * t - z * s, y * y * t + c, z * y * t + x * s, 0,
               x * z * t + y * s, y * z * t - x * s, z * z * t + c, 0,
               0, 0, 0, 1]))"

definition gl_rotateX :: "mat4 \<Rightarrow> real \<Rightarrow> mat4" where
  "gl_rotateX a rad =
     (\<lambda>k. if 4 \<le> k \<and> k < 8 then a k * cos rad + a (k + 4) * sin rad
          else if 8 \<le> k \<and> k < 12 then a k * cos rad - a (k - 4) * sin rad
          else a k)"

definition gl_rotateY :: "mat4 \<Rightarrow> real \<Rightarrow> mat4" where
  "gl_rotateY a rad =
     (\<lambda>k. if k < 4 then a k * cos rad - a (k + 8) * sin rad
          else if 8 \<le> k \<and> k < 12 then a (k - 8) * sin rad + a k * cos rad
          else a k)"

definition gl_rotateZ :: "mat4 \<Rightarrow> real \<Rightarrow> mat4" where
  "gl_rotateZ a rad =
     (\<lambda>k. if k < 4 then a k * cos rad + a (k + 4) * sin rad
          else if 4 \<le> k \<and> k < 8 then a k * cos rad - a (k - 4) * sin rad
          else a k)"

text \<open>Floating-point rounding, to the nearest number of \<open>p\<close> significant bits: 53 for
  a double, 24 for a float32. \<open>rte\<close> rounds to the nearest integer, a tie to the even
  one. The exponent is not bounded: overflow and subnormal numbers are not modelled.\<close>

definition rte :: "real \<Rightarrow> int" where
  "rte x =
     (let f = \<lfloor>x\<rfloor>; d = x - of_int f in
      if d < 1 / 2 then f else if 1 / 2 < d then f + 1 else if even f then f else f + 1)"

definition fpRound :: "nat \<Rightarrow> real \<Rightarrow> real" where
  "fpRound p x =
     (if x = 0 then 0
      else (let u = 2 powr (of_int \<lfloor>log 2 \<bar>x\<bar>\<rfloor> - (real p - 1))
            in u * of_int (rte (x / u))))"

text \<open>\<^verbatim>\<open>vec3.dist\<close> of gl-matrix: the distance of two points as a double. The
  library rounds the differences, the sum of their squares and the square root; the
  instance rounds the distance once, to the nearest double.\<close>

definition gl_dist :: "vec3 \<Rightarrow> vec3 \<Rightarrow> real" where
  "gl_dist a b = fpRound 53 (vec3_length (vec3_sub b a))"

definition glMatrix :: mathlib where
  "glMatrix = \<lparr>
     vec3_dist = gl_dist,
     toDouble = fpRound 53,
     toFloat32 = fpRound 24,
     angleDist = angleDist_spec,
     normToLength = normToLength_spec,
     getMatrixAxisZ = getMatrixAxisZ_spec,
     transformVec3Mat4w0 = transformVec3Mat4w0_spec,
     mat4_fromRotation = gl_fromRotation,
     mat4_mul = gl_mul,
     mat4_rotateX = gl_rotateX,
     mat4_rotateY = gl_rotateY,
     mat4_rotateZ = gl_rotateZ,
     TAU = 2 * pi \<rparr>"

section \<open>Notions of the specification\<close>

text \<open>What the bounds of bob and whack-a-mole need of the two roundings: they are
  monotone, the rounding to a double keeps a double and the number 1, and it commutes
  with the change of sign. Rounding to the nearest number has these properties.\<close>

definition rounding :: "mathlib \<Rightarrow> bool" where
  "rounding M \<longleftrightarrow>
     (\<forall>x y. x \<le> y \<longrightarrow> toDouble M x \<le> toDouble M y)
     \<and> (\<forall>x y. x \<le> y \<longrightarrow> toFloat32 M x \<le> toFloat32 M y)
     \<and> (\<forall>x. toDouble M (toDouble M x) = toDouble M x)
     \<and> (\<forall>x. toDouble M (- x) = - toDouble M x)
     \<and> toDouble M 1 = 1"

text \<open>Waypoint \<open>i\<close> of a path, and what "nearest" and "second-nearest" mean for the
  distances \<open>d 0, ..., d (n - 1)\<close> of \<open>n\<close> waypoints: a waypoint no farther than any
  other, and a waypoint other than the nearest no farther than any other such waypoint.\<close>

definition waypoint :: "real list \<Rightarrow> nat \<Rightarrow> vec3" where
  "waypoint path i = (path ! (4 * i), path ! (4 * i + 1), path ! (4 * i + 2))"

definition nearest :: "(nat \<Rightarrow> real) \<Rightarrow> nat \<Rightarrow> nat \<Rightarrow> bool" where
  "nearest d n i \<longleftrightarrow> i < n \<and> (\<forall>j<n. d i \<le> d j)"

definition secondNearest :: "(nat \<Rightarrow> real) \<Rightarrow> nat \<Rightarrow> nat \<Rightarrow> nat \<Rightarrow> bool" where
  "secondNearest d n i s \<longleftrightarrow> s < n \<and> s \<noteq> i \<and> (\<forall>j<n. j \<noteq> i \<longrightarrow> d s \<le> d j)"

text \<open>What the loop of \<^verbatim>\<open>findPathStartIndex\<close> has established when it reaches
  waypoint \<open>i\<close>.\<close>

definition loopInv :: "(nat \<Rightarrow> real) \<Rightarrow> nat \<Rightarrow> int \<times> int \<times> real \<times> real \<Rightarrow> bool" where
  "loopInv d i st =
     (case st of (minPoint, secPoint, secDist, minDist) \<Rightarrow>
        0 \<le> minPoint \<and> nearest d i (nat minPoint) \<and> minDist = d (nat minPoint) \<and>
        (if i = 1 then secPoint = - 1
         else 0 \<le> secPoint \<and> secondNearest d i (nat minPoint) (nat secPoint) \<and>
              secDist = d (nat secPoint)))"

section \<open>Example data\<close>

definition exampleBox :: AABB where
  "exampleBox = \<lparr>minX = - 1, minY = - 1, minZ = - 1, maxX = 1, maxY = 1, maxZ = 1\<rparr>"

definition exampleInstance :: BINModelInstance where
  "exampleInstance = \<lparr>modelMatrix = mat4_identity, modelEuler = (0, 0, 0),
     translation = (0, 0, 0), binModelBBox = exampleBox\<rparr>"

text \<open>A car with three sub-models and no motion.\<close>

definition exampleCar :: ObjectRenderer where
  "exampleCar = \<lparr>
     modelInstance = [exampleInstance, exampleInstance, exampleInstance],
     visible = True,
     objectSpawn = \<lparr>objectId = CAR02_F, spawnMatrix = mat4_identity,
                    dispOnAreaNo = 0, dispOffAreaNo = - 1\<rparr>,
     bbox = exampleBox,
     motionState = None\<rparr>"

text \<open>Three waypoints on the z axis, at 0, 4 and 8.\<close>

definition examplePath :: "real list" where
  "examplePath = [0, 0, 0, 0,  0, 0, 4, 0,  0, 0, 8, 0]"

text \<open>An object definition that takes its speed from the table, a path of kind
  \<^verbatim>\<open>SIMPLE_PATH\<close> over \<open>examplePath\<close>, and an object with one sub-model spawned
  on the z axis at \<open>z\<close>.\<close>

definition exampleDef :: ObjectDefinition where
  "exampleDef = \<lparr>speedIndex = 2, stayLevel = True\<rparr>"

definition exampleParams :: MotionParameters where
  "exampleParams = \<lparr>motionID = SIMPLE_PATH, globalMotionIndex = 0, pathSpeed = - 1,
     pathPoints = examplePath\<rparr>"

definition exampleSpawn :: "real \<Rightarrow> MissionSetupObjectSpawn" where
  "exampleSpawn z = \<lparr>objectId = 0x10,
     spawnMatrix = (\<lambda>k. if k = 14 then z else mat4_identity k),
     dispOnAreaNo = 0, dispOffAreaNo = - 1\<rparr>"

definition exampleObject :: "real \<Rightarrow> ObjectRenderer" where
  "exampleObject z = \<lparr>modelInstance = [exampleInstance], visible = True,
     objectSpawn = exampleSpawn z, bbox = exampleBox, motionState = None\<rparr>"

text \<open>The motion state the constructor gives this object (lemma \<open>exampleStart_new\<close>).\<close>

definition exampleStart :: "real \<Rightarrow> MotionState" where
  "exampleStart z = \<lparr>
     parameters = exampleParams, pos = (0, 0, z), target = (0, 0, 0), velocity = (0, 0, 0),
     adjustPitch = False, pathIndex = - 1, speed = 2,
     euler = (0, 0, 0), eulerStep = (0, 0, 0), eulerTarget = (0, 0, 0),
     angle = 0, angleStep = 0, angleTarget = 0,
     base = spawnMatrix (exampleSpawn z), reference = mat4_identity, final = mat4_identity,
     axis = (0, 0, 0), timer = - 1, state = - 1\<rparr>"

text \<open>The same object stopped on the path at waypoint 0, with the pitch blend on.\<close>

definition stoppedState :: MotionState where
  "stoppedState = (exampleStart 0)\<lparr>pathIndex := 0, speed := 0, adjustPitch := True\<rparr>"

section \<open>Runs of frames\<close>

text \<open>A run of the bob or the whack-a-mole function over the frames of
  \<^verbatim>\<open>prepareToRender\<close>: each frame gives the delta time and the random number the
  function would draw. A run of whack-a-mole ends at the first frame that throws.\<close>

fun bobRun :: "mathlib \<Rightarrow> ObjectRenderer \<Rightarrow> (real \<times> real) list \<Rightarrow> MotionState \<Rightarrow> MotionState" where
  "bobRun M object [] motion = motion"
| "bobRun M object (f # frames) motion =
     bobRun M object frames (fst (miscBobMotionFunc M object (fst f) (snd f) motion))"

fun whackRun ::
  "mathlib \<Rightarrow> ObjectRenderer \<Rightarrow> (real \<times> real) list \<Rightarrow> MotionState \<Rightarrow> error + MotionState" where
  "whackRun M object [] motion = Inr motion"
| "whackRun M object (f # frames) motion =
     (case miscWhackAMoleMotionFunc M object (fst f) (snd f) motion of
        Inl e \<Rightarrow> Inl e
      | Inr r \<Rightarrow> whackRun M object frames (fst r))"

text \<open>The spawn height \<^verbatim>\<open>object.objectSpawn.modelMatrix[13]\<close>, and the bounds the two
  functions keep.\<close>

definition spawnHeight :: "ObjectRenderer \<Rightarrow> real" where
  "spawnHeight object = spawnMatrix (objectSpawn object) 13"

text \<open>The radius of the bob motion, \<open>|bbox.maxY * .15|\<close> as a double, and the rounded
  bounds: the float32 nearest to the double nearest to \<open>spawn + d\<close>.\<close>

definition bobRadius :: "mathlib \<Rightarrow> ObjectRenderer \<Rightarrow> real" where
  "bobRadius M object = \<bar>toDouble M (maxY (bbox object) * toDouble M 0.15)\<bar>"

definition storedBound :: "mathlib \<Rightarrow> ObjectRenderer \<Rightarrow> real \<Rightarrow> real" where
  "storedBound M object d = toFloat32 M (toDouble M (spawnHeight object + d))"

definition bobInv :: "mathlib \<Rightarrow> ObjectRenderer \<Rightarrow> MotionState \<Rightarrow> bool" where
  "bobInv M object motion \<longleftrightarrow>
     storedBound M object (- bobRadius M object) \<le> vget (pos motion) Y
     \<and> vget (pos motion) Y \<le> storedBound M object (bobRadius M object)"

definition whackInv :: "mathlib \<Rightarrow> ObjectRenderer \<Rightarrow> real \<Rightarrow> MotionState \<Rightarrow> bool" where
  "whackInv M object buriedDepth motion \<longleftrightarrow>
     0 \<le> angle motion \<and> angle motion \<le> pi \<and> 0 \<le> angleStep motion \<and>
     storedBound M object (min 0 buriedDepth) \<le> vget (pos motion) Y \<and>
     vget (pos motion) Y \<le> storedBound M object (max 0 buriedDepth)"

text \<open>Successive calls of \<^verbatim>\<open>adjustBasePitch\<close> with the given delta times.\<close>

fun pitchRun :: "mathlib \<Rightarrow> real list \<Rightarrow> mat4 \<times> MotionState \<Rightarrow> mat4 \<times> MotionState" where
  "pitchRun M [] sm = sm"
| "pitchRun M (dt # dts) sm = pitchRun M dts (adjustBasePitch M dt sm)"

text \<open>A motion state in a pitch blend about the x axis towards \<open>pi / 2\<close>, with the
  angle step \<open>s\<close> and a level velocity.\<close>

definition pitchExample :: "real \<Rightarrow> MotionState" where
  "pitchExample s = (exampleStart 0)\<lparr>adjustPitch := True, angleStep := s, angleTarget := pi / 2,
     axis := (1, 0, 0), velocity := (0, 0, 2)\<rparr>"

section \<open>The yaw of a path follower\<close>

text \<open>What the yaw step of \<^verbatim>\<open>followPath\<close> leaves: the yaw snapped to its target with a
  step of 0, or a step whose sign is the sign of the remaining angular distance.\<close>

definition yawSettled :: "mathlib \<Rightarrow> MotionState \<Rightarrow> bool" where
  "yawSettled M motion \<longleftrightarrow>
     (vget (euler motion) Y = vget (eulerTarget motion) Y \<and> vget (eulerStep motion) Y = 0)
     \<or> sgn (vget (eulerStep motion) Y) =
         sgn (angleDist M (vget (euler motion) Y) (vget (eulerTarget motion) Y))"

text \<open>A path with a turn at its second waypoint, and an object on its first leg,
  one unit before the turn, whose yaw is still turning towards the heading of that leg.\<close>

definition turnPath :: "real list" where
  "turnPath = [0, 0, 0, 0,  0, 0, 4, 0,  4, 0, 4, 0]"

definition turnState :: MotionState where
  "turnState = (exampleStart 0)\<lparr>
     parameters := exampleParams\<lparr>pathPoints := turnPath\<rparr>,
     pathIndex := 1, pos := (0, - 1, 3), target := (0, - 1, 4), velocity := (0, 0, 2),
     euler := (0, pi - 1 / 2, 0), eulerStep := (0, 1 / 20, 0), eulerTarget := (0, pi, 0)\<rparr>"

text \<open>The state in which the first update leaves \<open>exampleStart 0\<close> (lemma
  \<open>first_frame\<close>).\<close>

definition startedState :: MotionState where
  "startedState = (exampleStart 0)\<lparr>base := mat4_identity, pathIndex := 2, pos := (0, - 1, 4),
     target := (0, - 1, 8), velocity := (0, 0, 2)\<rparr>"


definition roundingPath :: "real list" where
  "roundingPath = [1, 0, 0, 0,  2, 1 / 2 ^ 28, 0, 0,  5, 0, 0, 0,  2, 0, 0, 0]"

section \<open>Properties\<close>

subsection \<open>The rounding of the helper instance\<close>

text \<open>Rounding to the nearest integer: it is monotone and commutes with the change of
  sign.\<close>

lemma rte_int [simp]: "rte (of_int k) = k"
  by (simp add: rte_def)

lemma rte_near: "of_int k \<le> x \<Longrightarrow> x < of_int k + 1 / 2 \<Longrightarrow> rte x = k"
proof -
  assume a: "of_int k \<le> x" "x < of_int k + 1 / 2"
  then have "\<lfloor>x\<rfloor> = k" by (simp add: floor_eq_iff)
  then show ?thesis using a by (simp add: rte_def)
qed

lemma rte_cases:
  obtains "x - of_int \<lfloor>x\<rfloor> < 1 / 2" and "rte x = \<lfloor>x\<rfloor>"
  | "1 / 2 \<le> x - of_int \<lfloor>x\<rfloor>" and "rte x = \<lfloor>x\<rfloor> + 1"
  | "x - of_int \<lfloor>x\<rfloor> = 1 / 2" and "rte x = \<lfloor>x\<rfloor>"
  unfolding rte_def Let_def by (cases "x - of_int \<lfloor>x\<rfloor> < 1 / 2"; cases "1 / 2 < x - of_int \<lfloor>x\<rfloor>"; cases "even \<lfloor>x\<rfloor>") auto

lemma rte_bounds: "of_int (rte x) \<le> x + 1 / 2 \<and> x - 1 / 2 \<le> of_int (rte x)"
proof -
  have f1: "of_int \<lfloor>x\<rfloor> \<le> x" by simp
  have f2: "x < of_int \<lfloor>x\<rfloor> + 1" by linarith
  show ?thesis
  proof (cases x rule: rte_cases)
    case 1
    then show ?thesis using f1 f2 by (simp; linarith)
  next
    case 2
    then show ?thesis using f1 f2 by (simp; linarith)
  next
    case 3
    then show ?thesis using f1 f2 by (simp; linarith)
  qed
qed

lemma rte_mono: "x \<le> y \<Longrightarrow> rte x \<le> rte y"
proof -
  assume xy: "x \<le> y"
  have fl: "\<lfloor>x\<rfloor> \<le> \<lfloor>y\<rfloor>" using xy by (rule floor_mono)
  show ?thesis
  proof (cases "\<lfloor>x\<rfloor> = \<lfloor>y\<rfloor>")
    case True
    then show ?thesis using xy unfolding rte_def Let_def by auto
  next
    case False
    then have "\<lfloor>x\<rfloor> + 1 \<le> \<lfloor>y\<rfloor>" using fl by simp
    moreover have "rte x \<le> \<lfloor>x\<rfloor> + 1" unfolding rte_def Let_def by auto
    moreover have "\<lfloor>y\<rfloor> \<le> rte y" unfolding rte_def Let_def by auto
    ultimately show ?thesis by simp
  qed
qed

lemma rte_minus: "rte (- x) = - rte x"
proof (cases "x = of_int \<lfloor>x\<rfloor>")
  case True
  then have "- x = of_int (- \<lfloor>x\<rfloor>)" by simp
  then have "rte (- x) = - \<lfloor>x\<rfloor>" using rte_int by metis
  moreover have "rte x = \<lfloor>x\<rfloor>" using True rte_int by metis
  ultimately show ?thesis by simp
next
  case False
  moreover have "of_int \<lfloor>x\<rfloor> \<le> x" by (rule of_int_floor_le)
  ultimately have lt: "of_int \<lfloor>x\<rfloor> < x" by linarith
  have ub: "x < of_int \<lfloor>x\<rfloor> + 1" by linarith
  have c: "of_int (- \<lfloor>x\<rfloor> - 1) = - of_int \<lfloor>x\<rfloor> - (1::real)" by simp
  have "of_int (- \<lfloor>x\<rfloor> - 1) \<le> - x \<and> - x < of_int (- \<lfloor>x\<rfloor> - 1) + 1"
    unfolding c using lt ub by linarith
  then have fm: "\<lfloor>- x\<rfloor> = - \<lfloor>x\<rfloor> - 1" by (simp only: floor_eq_iff [symmetric])
  have d: "- x - of_int \<lfloor>- x\<rfloor> = 1 - (x - of_int \<lfloor>x\<rfloor>)" by (simp add: fm)
  have ev: "even \<lfloor>- x\<rfloor> \<longleftrightarrow> odd \<lfloor>x\<rfloor>" by (simp add: fm)
  show ?thesis
    unfolding rte_def Let_def d ev unfolding fm
    by (cases "x - of_int \<lfloor>x\<rfloor> < 1 / 2"; cases "1 / 2 < x - of_int \<lfloor>x\<rfloor>"; cases "even \<lfloor>x\<rfloor>") auto
qed

lemma binade:
  assumes "x \<noteq> 0"
  shows "2 powr of_int \<lfloor>log 2 \<bar>x\<bar>\<rfloor> \<le> \<bar>x\<bar> \<and> \<bar>x\<bar> < 2 powr (of_int \<lfloor>log 2 \<bar>x\<bar>\<rfloor> + 1)"
  using floor_log_eq_powr_iff [of "\<bar>x\<bar>" 2 "\<lfloor>log 2 \<bar>x\<bar>\<rfloor>"] assms by simp

lemma binade_eq:
  assumes "2 powr of_int e \<le> \<bar>x\<bar>" and "\<bar>x\<bar> < 2 powr (of_int e + 1)"
  shows "\<lfloor>log 2 \<bar>x\<bar>\<rfloor> = e"
proof -
  have "0 < \<bar>x\<bar>" using assms(1) powr_gt_zero [of 2 "of_int e"] by linarith
  then show ?thesis using floor_log_eq_powr_iff [of "\<bar>x\<bar>" 2 e] assms by simp
qed

lemma rte_pow [simp]: "rte (2 ^ n) = 2 ^ n"
  using rte_int [of "2 ^ n"] by simp

lemma fpRound_minus: "fpRound p (- x) = - fpRound p x"
  by (simp add: fpRound_def Let_def rte_minus)

lemma fpRound_exact:
  assumes "2 powr of_int e \<le> \<bar>x\<bar>" and "\<bar>x\<bar> < 2 powr (of_int e + 1)"
    and "x / 2 powr (of_int e - (real p - 1)) = of_int k"
  shows "fpRound p x = x"
proof -
  have e: "\<lfloor>log 2 \<bar>x\<bar>\<rfloor> = e" using assms(1,2) by (rule binade_eq)
  have nz: "x \<noteq> 0" using assms(1) powr_gt_zero [of 2 "of_int e"] by auto
  have "2 powr (of_int e - (real p - 1)) * of_int k = x"
    using assms(3) [symmetric] by simp
  then show ?thesis using nz by (simp add: fpRound_def Let_def e assms(3))
qed

text \<open>The rounding of a positive number stays in the closed binade of the number.\<close>

lemma fpRound_binade:
  assumes "0 < x" and "1 \<le> p"
  shows "2 powr of_int \<lfloor>log 2 x\<rfloor> \<le> fpRound p x \<and> fpRound p x \<le> 2 powr (of_int \<lfloor>log 2 x\<rfloor> + 1)"
proof -
  let ?e = "\<lfloor>log 2 x\<rfloor>"
  let ?u = "2 powr (of_int ?e - (real p - 1))"
  have u: "0 < ?u" by simp
  have b: "2 powr of_int ?e \<le> x" "x < 2 powr (of_int ?e + 1)"
    using binade [of x] assms(1) by simp_all
  have lo: "2 powr of_int ?e = ?u * of_int (2 ^ (p - 1))"
  proof -
    have "2 powr (real p - 1) = 2 ^ (p - 1)"
      using assms(2) powr_realpow [of 2 "p - 1"] by (simp add: of_nat_diff)
    then have "?u * 2 ^ (p - 1) = 2 powr (of_int ?e - (real p - 1) + (real p - 1))"
      by (simp only: powr_add)
    then show ?thesis by simp
  qed
  have hi: "2 powr (of_int ?e + 1) = ?u * of_int (2 ^ p)"
  proof -
    have "2 powr real p = 2 ^ p" using powr_realpow [of 2 p] by simp
    then have "?u * 2 ^ p = 2 powr (of_int ?e - (real p - 1) + real p)"
      by (simp only: powr_add)
    then show ?thesis by (simp add: algebra_simps)
  qed
  have "of_int (2 ^ (p - 1)) \<le> x / ?u" using b(1) u unfolding lo by (simp add: field_simps)
  then have r1: "2 ^ (p - 1) \<le> rte (x / ?u)" using rte_mono [of "of_int (2 ^ (p - 1))" "x / ?u"] by simp
  have "x / ?u \<le> of_int (2 ^ p)" using b(2) u unfolding hi by (simp add: field_simps)
  then have r2: "rte (x / ?u) \<le> 2 ^ p" using rte_mono [of "x / ?u" "of_int (2 ^ p)"] by simp
  have f: "fpRound p x = ?u * of_int (rte (x / ?u))"
    using assms(1) by (simp add: fpRound_def Let_def)
  have "?u * of_int (2 ^ (p - 1)) \<le> ?u * of_int (rte (x / ?u))"
    using r1 u by (intro mult_left_mono) simp_all
  moreover have "?u * of_int (rte (x / ?u)) \<le> ?u * of_int (2 ^ p)"
    using r2 u by (intro mult_left_mono) simp_all
  ultimately show ?thesis unfolding f lo hi by simp
qed

lemma fpRound_pos: "0 < x \<Longrightarrow> 1 \<le> p \<Longrightarrow> 0 < fpRound p x"
  using fpRound_binade [of x p] powr_gt_zero [of 2 "of_int \<lfloor>log 2 x\<rfloor>"] by linarith

lemma fpRound_mono_pos:
  assumes "0 < x" and "x \<le> y" and "1 \<le> p"
  shows "fpRound p x \<le> fpRound p y"
proof -
  have y: "0 < y" using assms by simp
  have le: "\<lfloor>log 2 x\<rfloor> \<le> \<lfloor>log 2 y\<rfloor>"
    using assms by (intro floor_mono log_mono) simp_all
  show ?thesis
  proof (cases "\<lfloor>log 2 x\<rfloor> = \<lfloor>log 2 y\<rfloor>")
    case True
    let ?u = "2 powr (of_int \<lfloor>log 2 y\<rfloor> - (real p - 1))"
    have "x / ?u \<le> y / ?u" using assms(2) by (simp add: divide_right_mono)
    then have "rte (x / ?u) \<le> rte (y / ?u)" by (rule rte_mono)
    then have "?u * of_int (rte (x / ?u)) \<le> ?u * of_int (rte (y / ?u))"
      by (intro mult_left_mono) simp_all
    then show ?thesis using assms(1) y True by (simp add: fpRound_def Let_def)
  next
    case False
    then have "of_int \<lfloor>log 2 x\<rfloor> + 1 \<le> (of_int \<lfloor>log 2 y\<rfloor> :: real)" using le by linarith
    then have "(2::real) powr (of_int \<lfloor>log 2 x\<rfloor> + 1) \<le> 2 powr of_int \<lfloor>log 2 y\<rfloor>" by simp
    then show ?thesis
      using fpRound_binade [OF assms(1,3)] fpRound_binade [OF y assms(3)] by linarith
  qed
qed

lemma fpRound_mono:
  assumes "x \<le> y" and "1 \<le> p"
  shows "fpRound p x \<le> fpRound p y"
proof -
  consider "0 < x" | "x = 0" "y = 0" | "x = 0" "0 < y" | "x < 0" "0 \<le> y" | "x < 0" "y < 0"
    using assms(1) by linarith
  then show ?thesis
  proof cases
    case 1
    then show ?thesis using assms by (rule fpRound_mono_pos)
  next
    case 2
    then show ?thesis by simp
  next
    case 3
    then show ?thesis using fpRound_pos [of y p] assms(2) by (simp add: fpRound_def)
  next
    case 4
    have "0 < fpRound p (- x)" using 4 assms(2) by (intro fpRound_pos) simp_all
    then have "fpRound p x < 0" by (simp add: fpRound_minus)
    moreover have "0 \<le> fpRound p y"
      using fpRound_pos [of y p] assms(2) 4 by (cases "y = 0") (simp_all add: fpRound_def)
    ultimately show ?thesis by linarith
  next
    case 5
    have "fpRound p (- y) \<le> fpRound p (- x)"
      using 5 assms by (intro fpRound_mono_pos) simp_all
    then show ?thesis by (simp add: fpRound_minus)
  qed
qed

lemma ulp_lo: "1 \<le> p \<Longrightarrow> 2 powr of_int e = 2 powr (of_int e - (real p - 1)) * 2 ^ (p - 1)"
proof -
  assume p: "1 \<le> p"
  have "2 powr (real p - 1) = 2 ^ (p - 1)"
    using p powr_realpow [of 2 "p - 1"] by (simp add: of_nat_diff)
  then have "2 powr (of_int e - (real p - 1)) * 2 ^ (p - 1) = 2 powr (of_int e - (real p - 1) + (real p - 1))"
    by (simp only: powr_add)
  then show ?thesis by simp
qed

lemma ulp_hi: "2 powr (of_int e + 1) = 2 powr (of_int e - (real p - 1)) * 2 ^ p"
proof -
  have "2 powr real p = 2 ^ p" using powr_realpow [of 2 p] by simp
  then have "2 powr (of_int e - (real p - 1)) * 2 ^ p = 2 powr (of_int e - (real p - 1) + real p)"
    by (simp only: powr_add)
  then show ?thesis by (simp add: algebra_simps)
qed

lemma fpRound_idem_pos:
  assumes "0 < x" and "1 \<le> p"
  shows "fpRound p (fpRound p x) = fpRound p x"
proof -
  let ?e = "\<lfloor>log 2 x\<rfloor>"
  let ?u = "2 powr (of_int ?e - (real p - 1))"
  let ?k = "rte (x / ?u)"
  have u: "0 < ?u" by simp
  have f: "fpRound p x = ?u * of_int ?k"
    using assms(1) by (simp add: fpRound_def Let_def)
  have pos: "0 < fpRound p x" using assms by (rule fpRound_pos)
  have bd: "2 powr of_int ?e \<le> fpRound p x" "fpRound p x \<le> 2 powr (of_int ?e + 1)"
    using fpRound_binade [OF assms] by simp_all
  show ?thesis
  proof (cases "fpRound p x < 2 powr (of_int ?e + 1)")
    case True
    have "fpRound p x / ?u = of_int ?k" using u by (simp add: f)
    then show ?thesis
      using fpRound_exact [of ?e "fpRound p x" p ?k] bd(1) True pos by simp
  next
    case False
    then have eq: "fpRound p x = 2 powr (of_int ?e + 1)" using bd(2) by linarith
    have "2 powr (of_int (?e + 1)) = 2 powr (of_int (?e + 1) - (real p - 1)) * 2 ^ (p - 1)"
      using assms(2) by (rule ulp_lo)
    then have "2 powr (of_int ?e + 1) / 2 powr (of_int (?e + 1) - (real p - 1)) = of_int (2 ^ (p - 1))"
      by (simp add: field_simps)
    then show ?thesis
      using fpRound_exact [of "?e + 1" "fpRound p x" p "2 ^ (p - 1)"] pos
      unfolding eq by (simp add: powr_add)
  qed
qed

lemma fpRound_idem: "1 \<le> p \<Longrightarrow> fpRound p (fpRound p x) = fpRound p x"
proof -
  assume p: "1 \<le> p"
  consider "0 < x" | "x = 0" | "x < 0" by linarith
  then show ?thesis
  proof cases
    case 1
    then show ?thesis using p by (rule fpRound_idem_pos)
  next
    case 2
    then show ?thesis by (simp add: fpRound_def)
  next
    case 3
    then have "fpRound p (fpRound p (- x)) = fpRound p (- x)"
      using p by (intro fpRound_idem_pos) simp_all
    then show ?thesis by (simp add: fpRound_minus)
  qed
qed

lemma fpRound_one: "1 \<le> p \<Longrightarrow> fpRound p 1 = 1"
proof -
  assume p: "1 \<le> p"
  have "2 powr of_int 0 = 2 powr (of_int 0 - (real p - 1)) * 2 ^ (p - 1)"
    using p by (rule ulp_lo)
  then have "1 / 2 powr (of_int 0 - (real p - 1)) = of_int (2 ^ (p - 1))"
    by (simp add: field_simps)
  then show ?thesis
    using fpRound_exact [of 0 1 p "2 ^ (p - 1)"] by simp
qed

lemma rte_nearest: "\<bar>x - of_int k\<bar> < 1 / 2 \<Longrightarrow> rte x = k"
proof -
  assume a: "\<bar>x - of_int k\<bar> < 1 / 2"
  have "\<bar>of_int (rte x) - of_int k\<bar> < (1::real)" using rte_bounds [of x] a by linarith
  then have "\<bar>rte x - k\<bar> < 1" by (metis of_int_abs of_int_diff of_int_less_1_iff)
  then show ?thesis by linarith
qed

lemma fpRound_eval:
  assumes "2 powr of_int e \<le> \<bar>x\<bar>" and "\<bar>x\<bar> < 2 powr (of_int e + 1)"
    and "\<bar>x / 2 powr (of_int e - (real p - 1)) - of_int k\<bar> < 1 / 2"
  shows "fpRound p x = 2 powr (of_int e - (real p - 1)) * of_int k"
proof -
  have e: "\<lfloor>log 2 \<bar>x\<bar>\<rfloor> = e" using assms(1,2) by (rule binade_eq)
  have nz: "x \<noteq> 0" using assms(1) powr_gt_zero [of 2 "of_int e"] by auto
  show ?thesis using nz rte_nearest [OF assms(3)] by (simp add: fpRound_def Let_def e)
qed

lemma p2: "(2::real) powr - 55 = 1 / 2 ^ 55" "(2::real) powr - 26 = 1 / 2 ^ 26"
  "(2::real) powr - 51 = 1 / 2 ^ 51" "(2::real) powr - 3 = 1 / 8" "(2::real) powr - 2 = 1 / 4"
  by (simp_all add: powr_neg_numeral)

lemma double_015: "fpRound 53 0.15 = 5404319552844595 / 2 ^ 55"
  using fpRound_eval [of "- 3" "0.15" 53 5404319552844595]
  by (simp add: p2)

lemma float_015: "fpRound 24 (5404319552844595 / 2 ^ 55) = 10066330 / 2 ^ 26"
  using fpRound_eval [of "- 3" "5404319552844595 / 2 ^ 55" 24 10066330]
  by (simp add: p2)

lemma double_ints:
  "fpRound 53 1 = 1" "fpRound 53 2 = 2" "fpRound 53 3 = 3" "fpRound 53 4 = 4"
  "fpRound 53 5 = 5" "fpRound 53 7 = 7" "fpRound 53 8 = 8"
  using fpRound_exact [of 0 1 53 "2 ^ 52"] fpRound_exact [of 1 2 53 "2 ^ 52"]
    fpRound_exact [of 1 3 53 "3 * 2 ^ 51"] fpRound_exact [of 2 4 53 "2 ^ 52"]
    fpRound_exact [of 2 5 53 "5 * 2 ^ 50"] fpRound_exact [of 2 7 53 "7 * 2 ^ 50"]
    fpRound_exact [of 3 8 53 "2 ^ 52"]
  by (simp_all add: powr_neg_numeral)

lemma sqrt_near_2: "2 \<le> sqrt (4 + 1 / 2 ^ 56) \<and> sqrt (4 + 1 / 2 ^ 56) < 2 + 1 / 2 ^ 58"
proof
  show "2 \<le> sqrt (4 + 1 / 2 ^ 56)"
    by (rule real_le_rsqrt) simp
  show "sqrt (4 + 1 / 2 ^ 56) < 2 + 1 / 2 ^ 58"
    by (rule real_less_lsqrt) (simp_all add: power2_eq_square)
qed

lemma double_sqrt: "fpRound 53 (sqrt (4 + 1 / 2 ^ 56)) = 2"
proof -
  let ?x = "sqrt (4 + 1 / 2 ^ 56)"
  have b: "2 \<le> ?x" "?x < 2 + 1 / 2 ^ 58" using sqrt_near_2 by simp_all
  have "\<bar>?x * 2 ^ 51 - 2 ^ 52\<bar> < 1 / 2" using b by simp
  then have "\<bar>?x / 2 powr (of_int 1 - (real 53 - 1)) - of_int (2 ^ 52)\<bar> < 1 / 2"
    by (simp add: powr_neg_numeral)
  moreover have "2 powr of_int 1 \<le> \<bar>?x\<bar>" "\<bar>?x\<bar> < 2 powr (of_int 1 + 1)" using b by simp_all
  ultimately have "fpRound 53 ?x = 2 powr (of_int 1 - (real 53 - 1)) * of_int (2 ^ 52)"
    by (intro fpRound_eval)
  then show ?thesis by (simp add: powr_neg_numeral)
qed

text \<open>The instance has the properties of \<open>rounding\<close>.\<close>

lemma rounding_glMatrix: "rounding glMatrix"
  by (simp add: rounding_def glMatrix_def fpRound_mono fpRound_idem fpRound_minus fpRound_one)

text \<open>The distances between the points of the examples are doubles.\<close>

lemma sqrt_squares:
  "sqrt 1 = 1" "sqrt 4 = 2" "sqrt 9 = 3" "sqrt 16 = 4" "sqrt 25 = 5" "sqrt 49 = 7" "sqrt 64 = 8"
  using real_sqrt_abs [of 2] real_sqrt_abs [of 3] real_sqrt_abs [of 4] real_sqrt_abs [of 5]
    real_sqrt_abs [of 7] real_sqrt_abs [of 8]
  by simp_all

lemma fpRound_zero [simp]: "fpRound p 0 = 0"
  by (simp add: fpRound_def)

lemma exampleStart_new:
  "newMotionState (exampleSpawn z) exampleDef exampleParams = Inr (exampleStart z)"
  by (simp add: newMotionState_def objectSpeed_def exampleDef_def exampleParams_def
      exampleSpawn_def exampleStart_def speedTable_def mat4_getTranslation_def
      mat4_identity_def vec3_create_def)

subsection \<open>The results of the motion functions\<close>




subsection \<open>The restart of the whack-a-mole cycle\<close>

text \<open>The state of an object is \<open>- 1\<close> when it is constructed, and the whack-a-mole
  function keeps it between \<open>- 1\<close> and 1.\<close>

lemma whack_state_step:
  assumes "miscWhackAMoleMotionFunc M object dt rnd motion = Inr r"
    and "- 1 \<le> state motion" and "state motion \<le> 1"
  shows "- 1 \<le> state (fst r) \<and> state (fst r) \<le> 1"
  using assms
  by (auto simp add: miscWhackAMoleMotionFunc_def whackMove_def whackRestart_def js_rem_def Let_def
      split: if_splits list.splits)

lemma whackRun_state:
  "whackRun M object frames motion = Inr m \<Longrightarrow> - 1 \<le> state motion \<Longrightarrow> state motion \<le> 1 \<Longrightarrow>
   - 1 \<le> state m \<and> state m \<le> 1"
proof (induction frames arbitrary: motion)
  case Nil
  then show ?case by simp
next
  case (Cons f frames)
  then obtain r where r: "miscWhackAMoleMotionFunc M object (fst f) (snd f) motion = Inr r"
    and run: "whackRun M object frames (fst r) = Inr m"
    by (auto split: sum.splits)
  from whack_state_step [OF r Cons.prems(2,3)] Cons.IH [OF run] show ?case by simp
qed

lemma new_state:
  "newMotionState spawn def params = Inr m0 \<Longrightarrow> state m0 = - 1 \<and> timer m0 = - 1"
  by (auto simp add: newMotionState_def split: sum.splits)

text \<open>
  C10. When the whack-a-mole function is entered with \<open>timer = - 1\<close> it runs the restart
  block first. With a random number in \<open>[0, 1)\<close>, the block sets the timer to a value in
  \<open>[60, 210)\<close>, the angle to \<open>pi / 2\<close>, the angle step to \<open>pi / 45\<close>, and the state to
  \<open>(state + 1) mod 2\<close>, so that 0 and 1 alternate (the state is \<open>- 1\<close> at first, and
  never below). For a delta time of at most 60 the timer then runs down by the delta
  time in the same call.
\<close>

theorem whack_restart:
  assumes "timer motion = - 1" and "0 \<le> rnd" and "rnd < 1" and "- 1 \<le> state motion"
  shows "miscWhackAMoleMotionFunc M object dt rnd motion =
           (case whackMove M object dt (whackRestart rnd motion) of
              Inl e \<Rightarrow> Inl e | Inr m \<Rightarrow> Inr (m, False))
         \<and> 60 \<le> timer (whackRestart rnd motion) \<and> timer (whackRestart rnd motion) < 210
         \<and> angle (whackRestart rnd motion) = pi / 2
         \<and> angleStep (whackRestart rnd motion) = pi / 45
         \<and> state (whackRestart rnd motion) = (state motion + 1) mod 2
         \<and> (state motion = 0 \<longrightarrow> state (whackRestart rnd motion) = 1)
         \<and> (state motion = 1 \<longrightarrow> state (whackRestart rnd motion) = 0)
         \<and> (dt \<le> 60 \<longrightarrow> miscWhackAMoleMotionFunc M object dt rnd motion =
               Inr ((whackRestart rnd motion)\<lparr>timer := rnd * 150 + 60 - dt\<rparr>, False))"
  using assms
  by (auto simp add: miscWhackAMoleMotionFunc_def whackRestart_def whackMove_def js_rem_def)

theorem whack_restart_witness:
  "timer (exampleStart 0) = - 1 \<and> (0::real) \<le> 1 / 2 \<and> (1 / 2 :: real) < 1
   \<and> - 1 \<le> state (exampleStart 0)
   \<and> timer (whackRestart (1 / 2) (exampleStart 0)) = 135
   \<and> state (whackRestart (1 / 2) (exampleStart 0)) = 0
   \<and> miscWhackAMoleMotionFunc glMatrix (exampleObject 0) 1 (1 / 2) (exampleStart 0) =
       Inr ((whackRestart (1 / 2) (exampleStart 0))\<lparr>timer := 134\<rparr>, False)"
  using whack_restart [of "exampleStart 0" "1 / 2" glMatrix "exampleObject 0" 1]
  by (simp add: exampleStart_def whackRestart_def js_rem_def whackMove_def)

subsection \<open>The vehicle animation\<close>

lemma animFuncSelect_vehicle:
  "oid \<in> set vehicleIds \<Longrightarrow> animFuncSelect oid = Some VehicleAnimFunc"
  by (auto simp add: animFuncSelect_def vehicleIds_def HUKUBIKI_C_def COMPASS_A_def
      WINDMILL01_G_def CAR02_F_def CAR03_F_def CAR04_F_def CAR05_E_def CAR06_E_def
      CAR07_E_def CAR08_F_def DUSTCAR_F_def TRUCK01_F_def BUS01_F_def BIKE01_D_def
      BIKE02_D_def BIKE03_D_def BIKE04_E_def BIKE05_E_def BIKE06_E_def RADICON02_E_def
      KIDDYCAR01_C_def KIDDYCAR02_C_def ZOKUCAR_E_def)

text \<open>
  C9. For an object whose identity selects the vehicle animation and whose motion state
  is null, the animation of a frame returns the object as it was: the model matrix and
  the Euler angles of every sub-model are unchanged.
\<close>

theorem vehicle_anim_noop:
  assumes "animFuncSelect (objectId (objectSpawn object)) = Some VehicleAnimFunc"
    and "motionState object = None"
  shows "runAnimFunc M object dt = Inr object
         \<and> vehicleAnimFunc M object dt = Inr object
         \<and> (\<exists>object'. runAnimFunc M object dt = Inr object'
              \<and> map modelMatrix (modelInstance object') = map modelMatrix (modelInstance object)
              \<and> map modelEuler (modelInstance object') = map modelEuler (modelInstance object))"
  using assms by (simp add: runAnimFunc_def vehicleAnimFunc_def)

theorem vehicle_anim_noop_witness:
  "animFuncSelect (objectId (objectSpawn exampleCar)) = Some VehicleAnimFunc
   \<and> motionState exampleCar = None
   \<and> runAnimFunc glMatrix exampleCar 1 = Inr exampleCar"
  using vehicle_anim_noop [of exampleCar glMatrix 1]
  by (simp add: exampleCar_def animFuncSelect_vehicle vehicleIds_def)

subsection \<open>The start index of a path\<close>

lemma pathPoint_waypoint:
  "length path = 4 * n \<Longrightarrow> i < n \<Longrightarrow> pathPoint path (int i) = Inr (waypoint path i)"
  by (simp add: pathPoint_def waypoint_def nat_add_distrib nat_mult_distrib)

text \<open>One round of the loop keeps the invariant.\<close>

lemma loopInv_step:
  assumes "loopInv d i (mn, sc, sd, md)" and "1 \<le> i"
  shows "loopInv d (i + 1)
           (if d i < md then (int i, mn, md, d i)
            else if sc < 0 \<or> d i < sd then (mn, int i, d i, md)
            else (mn, sc, sd, md))"
  using assms
  unfolding loopInv_def nearest_def secondNearest_def
  by (auto simp: less_Suc_eq split: if_splits)

text \<open>On a path of \<open>n\<close> whole waypoints the loop returns, with the invariant at \<open>n\<close>.\<close>

lemma findPathLoop_inv:
  assumes "length path = 4 * n"
  shows "i \<le> n \<Longrightarrow> 1 \<le> i \<Longrightarrow> loopInv (\<lambda>j. vec3_dist M p (waypoint path j)) i st \<Longrightarrow>
         \<exists>st'. findPathLoop M p path i st = Inr st' \<and>
               loopInv (\<lambda>j. vec3_dist M p (waypoint path j)) n st'"
proof (induction "n - i" arbitrary: i st)
  case 0
  then have "i = n" by simp
  obtain mn sc sd md where st: "st = (mn, sc, sd, md)" by (cases st) auto
  show ?case using 0 assms \<open>i = n\<close> by (simp add: st findPathLoop.simps)
next
  case (Suc k)
  then have lt: "i < n" by simp
  obtain mn sc sd md where st: "st = (mn, sc, sd, md)" by (cases st) auto
  let ?d = "\<lambda>j. vec3_dist M p (waypoint path j)"
  let ?st = "if ?d i < md then (int i, mn, md, ?d i)
            else if sc < 0 \<or> ?d i < sd then (mn, int i, ?d i, md)
            else (mn, sc, sd, md)"
  have step: "loopInv ?d (i + 1) ?st"
    using loopInv_step [of ?d i mn sc sd md] Suc.prems st by simp
  have unfold: "findPathLoop M p path i st = findPathLoop M p path (i + 1) ?st"
    using lt assms
    by (simp add: st findPathLoop.simps [of M p path i] pathPoint_waypoint [OF assms lt] Let_def)
  have "k = n - (i + 1)" using Suc.hyps by simp
  from Suc.hyps(1) [OF this _ _ step] lt
  show ?case by (simp add: unfold)
qed

text \<open>
  C5, as amended. On a path of \<open>n > 0\<close> waypoints, \<^verbatim>\<open>findPathStartIndex\<close> returns 0 if
  the nearest waypoint is 0 and the second-nearest is not 1, 0 if the second-nearest is
  0 and the nearest is not 1, and otherwise the larger of the two indices, where nearest
  and second-nearest are taken by the distances \<^verbatim>\<open>vec3.dist\<close> returns, whatever
  doubles these are: \<open>minPoint\<close> is a waypoint of least returned distance, \<open>secPoint\<close>
  one of least returned distance among the others. A path of one waypoint has no
  second-nearest, \<open>secPoint\<close> is \<open>- 1\<close> and the result is 0.
\<close>

theorem findPathStartIndex_result:
  assumes "length path = 4 * n" and "0 < n"
  shows "\<exists>minPoint secPoint.
           nearest (\<lambda>j. vec3_dist M p (waypoint path j)) n minPoint
           \<and> (if n = 1 then secPoint = - 1
               else 0 \<le> secPoint \<and>
                    secondNearest (\<lambda>j. vec3_dist M p (waypoint path j)) n minPoint (nat secPoint))
           \<and> findPathStartIndex M p path =
               Inr (if minPoint = 0 \<and> secPoint \<noteq> 1 then 0
                    else if secPoint = 0 \<and> minPoint \<noteq> 1 then 0
                    else max (int minPoint) secPoint)"
proof -
  let ?d = "\<lambda>j. vec3_dist M p (waypoint path j)"
  have p0: "pathPoint path 0 = Inr (waypoint path 0)"
    using pathPoint_waypoint [OF assms(1), of 0] assms(2) by simp
  have init: "loopInv ?d 1 (0, - 1, 0, ?d 0)"
    by (simp add: loopInv_def nearest_def)
  obtain st where run: "findPathLoop M p path 1 (0, - 1, 0, ?d 0) = Inr st"
    and inv: "loopInv ?d n st"
    using findPathLoop_inv [OF assms(1) _ _ init] assms(2) by auto
  obtain mn sc sd md where st: "st = (mn, sc, sd, md)" by (cases st) auto
  have mn: "0 \<le> mn" "nearest ?d n (nat mn)"
    using inv by (simp_all add: st loopInv_def)
  have sc: "if n = 1 then sc = - 1 else 0 \<le> sc \<and> secondNearest ?d n (nat mn) (nat sc)"
    using inv by (simp add: st loopInv_def)
  have res0: "findPathStartIndex M p path =
               (if mn = 0 \<and> sc \<noteq> 1 then Inr 0
                else if sc = 0 \<and> mn \<noteq> 1 then Inr 0
                else Inr (max mn sc))"
    by (simp only: findPathStartIndex_def p0 run st sum.case prod.case)
  have res: "findPathStartIndex M p path =
               Inr (if nat mn = 0 \<and> sc \<noteq> 1 then 0
                    else if sc = 0 \<and> nat mn \<noteq> 1 then 0
                    else max (int (nat mn)) sc)"
    using mn(1) unfolding res0 by auto
  show ?thesis
    using mn(2) sc res by blast
qed

text \<open>Two evaluations on the path of three waypoints at 0, 4 and 8 on the z axis: from
  \<open>z = 7\<close> the nearest waypoints are 2 and 1, from \<open>z = 0\<close> they are 0 and 1.\<close>

lemma findPathStartIndex_example_7: "findPathStartIndex glMatrix (0, 0, 7) examplePath = Inr 2"
  by (simp add: findPathStartIndex_def findPathLoop.simps pathPoint_def examplePath_def
      glMatrix_def gl_dist_def vec3_length_def vec3_sub_def Let_def sqrt_squares double_ints)

lemma findPathStartIndex_example_0: "findPathStartIndex glMatrix (0, 0, 0) examplePath = Inr 1"
  by (simp add: findPathStartIndex_def findPathLoop.simps pathPoint_def examplePath_def
      glMatrix_def gl_dist_def vec3_length_def vec3_sub_def Let_def sqrt_squares double_ints)

theorem findPathStartIndex_result_witness:
  "length examplePath = 4 * 3 \<and> (0::nat) < 3
   \<and> findPathStartIndex glMatrix (0, 0, 7) examplePath = Inr 2
   \<and> (\<exists>minPoint secPoint.
         nearest (\<lambda>j. vec3_dist glMatrix (0, 0, 7) (waypoint examplePath j)) 3 minPoint
         \<and> 0 \<le> secPoint
         \<and> secondNearest (\<lambda>j. vec3_dist glMatrix (0, 0, 7) (waypoint examplePath j)) 3 minPoint
              (nat secPoint)
         \<and> Inr 2 = (Inr (if minPoint = 0 \<and> secPoint \<noteq> 1 then 0
                         else if secPoint = 0 \<and> minPoint \<noteq> 1 then 0
                         else max (int minPoint) secPoint) :: error + int))"
proof -
  have h1: "length examplePath = 4 * 3" by (simp add: examplePath_def)
  have h2: "(0::nat) < 3" by simp
  show ?thesis
    using findPathStartIndex_result [OF h1 h2, of glMatrix "(0, 0, 7)"] h1
    by (simp add: findPathStartIndex_example_7)
qed

text \<open>The exact distances of the waypoints of \<open>roundingPath\<close> from the origin, and the
  doubles returned for them.\<close>

lemma roundingPath_distances:
  "vec3_length (vec3_sub (waypoint roundingPath 0) (0, 0, 0)) = 1"
  "vec3_length (vec3_sub (waypoint roundingPath (Suc 0)) (0, 0, 0)) = sqrt (4 + 1 / 2 ^ 56)"
  "vec3_length (vec3_sub (waypoint roundingPath 2) (0, 0, 0)) = 5"
  "vec3_length (vec3_sub (waypoint roundingPath 3) (0, 0, 0)) = 2"
  by (simp_all add: waypoint_def roundingPath_def vec3_length_def vec3_sub_def sqrt_squares
      power2_eq_square [symmetric] power_divide)

lemma roundingPath_gl:
  "gl_dist (0, 0, 0) (waypoint roundingPath 0) = 1"
  "gl_dist (0, 0, 0) (waypoint roundingPath (Suc 0)) = 2"
  "gl_dist (0, 0, 0) (waypoint roundingPath 2) = 5"
  "gl_dist (0, 0, 0) (waypoint roundingPath 3) = 2"
  by (simp_all only: gl_dist_def roundingPath_distances double_ints double_sqrt)

lemma roundingPath_start: "findPathStartIndex glMatrix (0, 0, 0) roundingPath = Inr 1"
proof -
  have w: "pathPoint roundingPath 0 = Inr (waypoint roundingPath 0)"
    "pathPoint roundingPath 1 = Inr (waypoint roundingPath (Suc 0))"
    "pathPoint roundingPath 2 = Inr (waypoint roundingPath 2)"
    "pathPoint roundingPath 3 = Inr (waypoint roundingPath 3)"
    using pathPoint_waypoint [of roundingPath 4 0] pathPoint_waypoint [of roundingPath 4 1]
      pathPoint_waypoint [of roundingPath 4 2] pathPoint_waypoint [of roundingPath 4 3]
    by (simp_all add: roundingPath_def)
  have d: "vec3_dist glMatrix = gl_dist" by (simp add: glMatrix_def)
  have l: "length roundingPath = 16" by (simp add: roundingPath_def)
  show ?thesis
    by (simp add: findPathStartIndex_def findPathLoop.simps w d l roundingPath_gl Let_def)
qed

lemma lt4: "j < (4::nat) \<longleftrightarrow> j = 0 \<or> j = Suc 0 \<or> j = 2 \<or> j = 3"
  by auto

text \<open>
  C5 as stated, with the distances of the geometry, fails. On \<open>roundingPath\<close>, from the
  origin, waypoint 0 is the nearest and waypoint 3 the second-nearest, and no other
  choice is: by the claim the result is 0. The double that \<^verbatim>\<open>vec3.dist\<close> returns for
  waypoint 1 is 2, the distance of waypoint 3, so the loop keeps waypoint 1 as the
  second-nearest and the function returns 1.
\<close>

theorem rounded_distance_counterexample:
  "nearest (\<lambda>j. vec3_length (vec3_sub (waypoint roundingPath j) (0, 0, 0))) 4 0
   \<and> secondNearest (\<lambda>j. vec3_length (vec3_sub (waypoint roundingPath j) (0, 0, 0))) 4 0 3
   \<and> \<not> (\<exists>i s. nearest (\<lambda>j. vec3_length (vec3_sub (waypoint roundingPath j) (0, 0, 0))) 4 i
            \<and> secondNearest (\<lambda>j. vec3_length (vec3_sub (waypoint roundingPath j) (0, 0, 0))) 4 i s
            \<and> (i, s) \<noteq> (0, 3))
   \<and> findPathStartIndex glMatrix (0, 0, 0) roundingPath = Inr 1
   \<and> vec3_dist glMatrix (0, 0, 0) (waypoint roundingPath 1) = 2
   \<and> vec3_dist glMatrix (0, 0, 0) (waypoint roundingPath 3) = 2"
proof -
  let ?E = "\<lambda>j. vec3_length (vec3_sub (waypoint roundingPath j) (0, 0, 0))"
  have s: "2 < sqrt (4 + 1 / 2 ^ 56)" "sqrt (4 + 1 / 2 ^ 56) < 5"
    using real_sqrt_less_iff [of 4 "4 + 1 / 2 ^ 56"] real_sqrt_less_iff [of "4 + 1 / 2 ^ 56" 25]
    by (simp_all add: sqrt_squares)
  have E: "?E 0 = 1" "2 < ?E (Suc 0)" "?E (Suc 0) < 5" "?E 2 = 5" "?E 3 = 2"
    using s by (simp_all add: roundingPath_distances)
  have n: "nearest ?E 4 0"
    unfolding nearest_def lt4 using E by simp
  have sn: "secondNearest ?E 4 0 3"
    unfolding secondNearest_def lt4 using E by simp
  have u: "i = 0 \<and> s = 3" if a: "nearest ?E 4 i" and b: "secondNearest ?E 4 i s" for i s
  proof -
    have "i < 4" "?E i \<le> ?E 0" using a by (simp_all add: nearest_def)
    then have i: "i = 0" using E unfolding lt4 by auto
    have "s < 4" "s \<noteq> 0" "?E s \<le> ?E 3" using b by (simp_all add: i secondNearest_def)
    then have "s = 3" using E unfolding lt4 by auto
    then show ?thesis using i by simp
  qed
  have g: "vec3_dist glMatrix (0, 0, 0) (waypoint roundingPath 1) = 2"
    "vec3_dist glMatrix (0, 0, 0) (waypoint roundingPath 3) = 2"
    using roundingPath_gl by (simp_all add: glMatrix_def)
  show ?thesis using n sn u roundingPath_start g by blast
qed


subsection \<open>The quotients of the yaw step and the pitch step\<close>

lemma vget_vset [simp]: "vget (vset v a x) a = x"
  by (cases v; cases a) simp_all

lemma targetNextPoint_steps:
  assumes pt: "pathPoint (pathPoints (parameters motion))
           (if (pathIndex motion + 1) * 4 = int (length (pathPoints (parameters motion)))
            then 0 else pathIndex motion + 1) = Inr pt"
    and dst: "dst = vec3_length (vec3_sub (vset pt Y (vget pt Y - yOffset)) (target motion))"
    and fy: "dst / (if speed motion = 0 then 30 else speed motion) \<noteq> 0"
    and fp: "(if speed motion = 0 then 4 else 0.25 * dst / speed motion) \<noteq> 0"
  shows "\<exists>m. targetNextPoint M motion yOffset = Inr m
          \<and> speed m = speed motion
          \<and> pos m = target motion
          \<and> target m = vset pt Y (vget pt Y - yOffset)
          \<and> vget (euler m) Y =
               Math_atan2 (vget (getMatrixAxisZ M (final motion)) X)
                 (vget (getMatrixAxisZ M (final motion)) Z)
          \<and> vget (eulerTarget m) Y =
               pi + Math_atan2 (vget (vec3_sub (target m) (pos m)) X)
                      (vget (vec3_sub (target m) (pos m)) Z)
          \<and> vget (eulerStep m) Y =
               angleDist M (vget (euler m) Y) (vget (eulerTarget m) Y)
                 / (dst / (if speed motion = 0 then 30 else speed motion))
          \<and> (adjustPitch motion \<longrightarrow>
                angle m = 0 \<and>
                angleStep m =
                  angleTarget m / (if speed motion = 0 then 4 else 0.25 * dst / speed motion))"
proof -
  let ?tgt = "vset pt Y (vget pt Y - yOffset)"
  let ?vel = "vec3_sub ?tgt (target motion)"
  let ?yaw = "Math_atan2 (vget (getMatrixAxisZ M (final motion)) X)
                 (vget (getMatrixAxisZ M (final motion)) Z)"
  let ?yt = "pi + Math_atan2 (vget ?vel X) (vget ?vel Z)"
  let ?fy = "dst / (if speed motion = 0 then 30 else speed motion)"
  let ?fp = "if speed motion = 0 then 4 else 0.25 * dst / speed motion"
  show ?thesis
    using pt fy fp unfolding dst
    by (cases "speed motion = 0"; cases "adjustPitch motion";
        simp add: targetNextPoint_def Let_def yawStep_def pitchStep_def js_div_def)
qed

text \<open>
  C6. In \<^verbatim>\<open>targetNextPoint\<close>, for a motion state with a speed of at least 0 and a
  positive distance \<open>dst\<close> from the current target to the next one, neither the number
  of frames of the yaw, \<open>dst / (if speed = 0 then 30 else speed)\<close>, nor that of the pitch,
  \<open>if speed = 0 then 4 else 0.25 * dst / speed\<close>, is 0, and the function returns the state
  whose yaw step is the angular distance from the new yaw to the new yaw target divided
  by the first and, when the pitch is adjusted, whose pitch step is the pitch target
  divided by the second: with speed 0 the distance is divided by 30 and the pitch takes
  4 frames. The last three conjuncts state the same of the two quotients for any
  arguments.
\<close>

theorem no_division_by_zero:
  assumes "0 \<le> speed motion"
    and "pathPoint (pathPoints (parameters motion))
           (if (pathIndex motion + 1) * 4 = int (length (pathPoints (parameters motion)))
            then 0 else pathIndex motion + 1) = Inr pt"
    and "dst = vec3_length (vec3_sub (vset pt Y (vget pt Y - yOffset)) (target motion))"
    and "0 < dst"
  shows "dst / (if speed motion = 0 then 30 else speed motion) \<noteq> 0
         \<and> (if speed motion = 0 then 4 else 0.25 * dst / speed motion) \<noteq> 0
         \<and> (\<exists>m. targetNextPoint M motion yOffset = Inr m
              \<and> speed m = speed motion
              \<and> pos m = target motion
              \<and> target m = vset pt Y (vget pt Y - yOffset)
              \<and> vget (euler m) Y =
                   Math_atan2 (vget (getMatrixAxisZ M (final motion)) X)
                     (vget (getMatrixAxisZ M (final motion)) Z)
              \<and> vget (eulerTarget m) Y =
                   pi + Math_atan2 (vget (vec3_sub (target m) (pos m)) X)
                          (vget (vec3_sub (target m) (pos m)) Z)
              \<and> vget (eulerStep m) Y =
                   angleDist M (vget (euler m) Y) (vget (eulerTarget m) Y)
                     / (dst / (if speed motion = 0 then 30 else speed motion))
              \<and> (adjustPitch motion \<longrightarrow>
                    angle m = 0 \<and>
                    angleStep m =
                      angleTarget m / (if speed motion = 0 then 4 else 0.25 * dst / speed motion)))
         \<and> yawStep M yaw yawTarget d 0 = js_div (angleDist M yaw yawTarget) (d / 30)
         \<and> pitchStep pitchTarget d 0 = js_div pitchTarget 4
         \<and> (0 \<le> sp \<and> 0 < d \<longrightarrow>
              yawStep M yaw yawTarget d sp =
                Inr (angleDist M yaw yawTarget / (d / (if sp = 0 then 30 else sp)))
              \<and> d / (if sp = 0 then 30 else sp) \<noteq> 0
              \<and> pitchStep pitchTarget d sp =
                Inr (pitchTarget / (if sp = 0 then 4 else 0.25 * d / sp))
              \<and> (if sp = 0 then 4 else 0.25 * d / sp) \<noteq> 0)"
proof -
  have fy: "dst / (if speed motion = 0 then 30 else speed motion) \<noteq> 0"
    using assms(1,4) by simp
  have fp: "(if speed motion = 0 then 4 else 0.25 * dst / speed motion) \<noteq> 0"
    using assms(1,4) by simp
  have q: "yawStep M yaw yawTarget d 0 = js_div (angleDist M yaw yawTarget) (d / 30)"
    "pitchStep pitchTarget d 0 = js_div pitchTarget 4"
    "0 \<le> sp \<and> 0 < d \<longrightarrow>
              yawStep M yaw yawTarget d sp =
                Inr (angleDist M yaw yawTarget / (d / (if sp = 0 then 30 else sp)))
              \<and> d / (if sp = 0 then 30 else sp) \<noteq> 0
              \<and> pitchStep pitchTarget d sp =
                Inr (pitchTarget / (if sp = 0 then 4 else 0.25 * d / sp))
              \<and> (if sp = 0 then 4 else 0.25 * d / sp) \<noteq> 0"
    by (auto simp add: yawStep_def pitchStep_def js_div_def)
  show ?thesis
    using fy fp targetNextPoint_steps [OF assms(2,3) fy fp, of M] q by blast
qed

theorem no_division_by_zero_witness:
  "0 \<le> speed stoppedState
   \<and> pathPoint examplePath 1 = Inr (0, 0, 4)
   \<and> sqrt 17 = vec3_length (vec3_sub (0, - 1, 4) (target stoppedState))
   \<and> 0 < sqrt 17
   \<and> speed stoppedState = 0 \<and> adjustPitch stoppedState
   \<and> (\<exists>m. targetNextPoint glMatrix stoppedState 1 = Inr m
         \<and> target m = (0, - 1, 4)
         \<and> vget (euler m) Y = 0
         \<and> vget (eulerTarget m) Y = pi
         \<and> vget (eulerStep m) Y = angleDist glMatrix 0 pi / (sqrt 17 / 30)
         \<and> angleStep m = angleTarget m / 4)
   \<and> yawStep glMatrix 0 1 4 2 = Inr (angleDist glMatrix 0 1 / 2)
   \<and> pitchStep 1 4 2 = Inr 2"
proof -
  let ?m = stoppedState
  have h1: "0 \<le> speed ?m" by (simp add: stoppedState_def)
  have pt: "pathPoint examplePath 1 = Inr (0, 0, 4)"
    by (simp add: pathPoint_def examplePath_def)
  have h2: "pathPoint (pathPoints (parameters ?m))
           (if (pathIndex ?m + 1) * 4 = int (length (pathPoints (parameters ?m)))
            then 0 else pathIndex ?m + 1) = Inr (0, 0, 4)"
    using pt by (simp add: stoppedState_def exampleStart_def exampleParams_def examplePath_def)
  have h3: "sqrt 17 = vec3_length (vec3_sub (vset (0, 0, 4) Y (vget (0, 0, 4) Y - 1)) (target ?m))"
    by (simp add: stoppedState_def exampleStart_def vec3_length_def vec3_sub_def)
  have h4: "0 < sqrt (17::real)" by simp
  have s: "speed ?m = 0" "adjustPitch ?m" "target ?m = (0, 0, 0)" "final ?m = mat4_identity"
    by (simp_all add: stoppedState_def exampleStart_def)
  have a: "Math_atan2 0 1 = 0" "Math_atan2 0 4 = 0" by (simp_all add: Math_atan2_def)
  have g: "getMatrixAxisZ glMatrix mat4_identity = (0, 0, 1)"
    by (simp add: glMatrix_def getMatrixAxisZ_spec_def mat4_identity_def)
  have v: "vset (0, 0, 4) Y (vget (0, 0, 4) Y - 1) = (0, - 1, 4)" by simp
  have sub: "vec3_sub (0, - 1, 4) (0, 0, 0) = (0, - 1, 4)" by (simp add: vec3_sub_def)
  show ?thesis
    using no_division_by_zero [OF h1 h2 h3 h4, of glMatrix 0 1 4 1 2] h1 pt h3 h4
    unfolding v
    by (auto simp add: s a g sub)
qed

subsection \<open>The bounds of bob and whack-a-mole\<close>

lemma toDouble_zero: "rounding M \<Longrightarrow> toDouble M 0 = 0"
proof -
  assume "rounding M"
  then have "toDouble M (- 0) = - toDouble M 0" unfolding rounding_def by blast
  then show ?thesis by simp
qed

lemma toDouble_mono: "rounding M \<Longrightarrow> x \<le> y \<Longrightarrow> toDouble M x \<le> toDouble M y"
  unfolding rounding_def by blast

lemma toDouble_idem: "rounding M \<Longrightarrow> toDouble M (toDouble M x) = toDouble M x"
  unfolding rounding_def by blast

lemma toDouble_minus: "rounding M \<Longrightarrow> toDouble M (- x) = - toDouble M x"
  unfolding rounding_def by blast

lemma toDouble_one: "rounding M \<Longrightarrow> toDouble M 1 = 1"
  unfolding rounding_def by blast

lemma storedBound_mono:
  "rounding M \<Longrightarrow> x \<le> y \<Longrightarrow> storedBound M object x \<le> storedBound M object y"
  unfolding rounding_def storedBound_def by simp

text \<open>A double times a factor in \<open>[- 1, 1]\<close>, rounded, stays within the double.\<close>

lemma toDouble_scaled:
  assumes r: "rounding M" and s: "- 1 \<le> s" "s \<le> 1"
  shows "- \<bar>toDouble M c\<bar> \<le> toDouble M (toDouble M c * s)
         \<and> toDouble M (toDouble M c * s) \<le> \<bar>toDouble M c\<bar>"
proof -
  let ?c = "toDouble M c"
  have "\<bar>?c * s\<bar> \<le> \<bar>?c\<bar> * 1"
    unfolding abs_mult using s by (intro mult_left_mono) auto
  then have b: "- \<bar>?c\<bar> \<le> ?c * s" "?c * s \<le> \<bar>?c\<bar>" by linarith+
  have a: "toDouble M \<bar>?c\<bar> = \<bar>?c\<bar>"
    using toDouble_idem [OF r, of c] toDouble_minus [OF r, of ?c] by (simp add: abs_if)
  have na: "toDouble M (- \<bar>?c\<bar>) = - \<bar>?c\<bar>"
    using toDouble_minus [OF r, of "\<bar>?c\<bar>"] a by simp
  show ?thesis
    using toDouble_mono [OF r b(1)] toDouble_mono [OF r b(2)] a na by simp
qed

lemma bobHeight_bounds:
  assumes r: "rounding M"
  shows "storedBound M object (- bobRadius M object)
           \<le> bobHeight M (spawnHeight object) (maxY (bbox object)) a
         \<and> bobHeight M (spawnHeight object) (maxY (bbox object)) a
           \<le> storedBound M object (bobRadius M object)"
proof -
  let ?c = "maxY (bbox object) * toDouble M 0.15"
  let ?t = "toDouble M (toDouble M ?c * sin a)"
  have "- 1 \<le> sin a" "sin a \<le> 1" by simp_all
  from toDouble_scaled [OF r this, of ?c]
  have b: "- bobRadius M object \<le> ?t" "?t \<le> bobRadius M object"
    by (simp_all add: bobRadius_def)
  have e: "bobHeight M (spawnHeight object) (maxY (bbox object)) a = storedBound M object ?t"
    by (simp add: bobHeight_def storedBound_def)
  show ?thesis
    unfolding e using storedBound_mono [OF r b(1)] storedBound_mono [OF r b(2)] by simp
qed

lemma bob_step:
  assumes "rounding M" and "bobInv M object motion"
  shows "bobInv M object (fst (miscBobMotionFunc M object dt rnd motion))"
  using assms(2) bobHeight_bounds [OF assms(1), of object]
  by (simp add: bobInv_def miscBobMotionFunc_def Let_def spawnHeight_def)

lemma bobRun_inv:
  "rounding M \<Longrightarrow> bobInv M object motion \<Longrightarrow> bobInv M object (bobRun M object frames motion)"
  by (induction frames arbitrary: motion) (simp_all add: bob_step)

lemma new_pos:
  "newMotionState (objectSpawn object) def params = Inr m0 \<Longrightarrow>
   vget (pos m0) Y = spawnHeight object \<and> angle m0 = 0 \<and> angleStep m0 = 0"
  by (auto simp add: newMotionState_def spawnHeight_def mat4_getTranslation_def split: sum.splits)

text \<open>A double times a factor in \<open>[0, 1]\<close>, rounded, stays between 0 and the double.\<close>

lemma toDouble_fraction:
  assumes r: "rounding M" and s: "0 \<le> s" "s \<le> 1"
  shows "min 0 (toDouble M c) \<le> toDouble M (toDouble M c * s)
         \<and> toDouble M (toDouble M c * s) \<le> max 0 (toDouble M c)"
proof -
  let ?c = "toDouble M c"
  have i: "toDouble M ?c = ?c" by (rule toDouble_idem [OF r])
  have z: "toDouble M 0 = 0" by (rule toDouble_zero [OF r])
  show ?thesis
  proof (cases "0 \<le> ?c")
    case True
    then have "0 \<le> ?c * s" "?c * s \<le> ?c" using s by (simp_all add: mult_left_le)
    then show ?thesis
      using toDouble_mono [OF r, of 0 "?c * s"] toDouble_mono [OF r, of "?c * s" ?c] True i z
      by simp
  next
    case False
    then have "?c * s \<le> 0" "?c \<le> ?c * s"
      using s by (simp_all add: mult_le_0_iff mult_left_le_one_le mult_le_cancel_left2)
    then show ?thesis
      using toDouble_mono [OF r, of "?c * s" 0] toDouble_mono [OF r, of ?c "?c * s"] False i z
      by simp
  qed
qed

lemma whackHeight_bounds:
  assumes r: "rounding M" and a: "0 \<le> a" "a \<le> pi"
  shows "storedBound M object (min 0 (buriedDepthOf M box))
           \<le> whackHeight M (spawnHeight object) (buriedDepthOf M box) st a
         \<and> whackHeight M (spawnHeight object) (buriedDepthOf M box) st a
           \<le> storedBound M object (max 0 (buriedDepthOf M box))"
proof -
  let ?s = "if st = 0 then toDouble M (1 - sin a) else sin a"
  have sn: "0 \<le> sin a" "sin a \<le> 1" using a by (simp_all add: sin_ge_zero)
  have "0 \<le> toDouble M (1 - sin a)" "toDouble M (1 - sin a) \<le> 1"
    using toDouble_mono [OF r, of 0 "1 - sin a"] toDouble_mono [OF r, of "1 - sin a" 1] sn
    by (simp_all add: toDouble_zero [OF r] toDouble_one [OF r])
  then have s: "0 \<le> ?s" "?s \<le> 1" using sn by simp_all
  let ?t = "toDouble M (buriedDepthOf M box * ?s)"
  have b: "min 0 (buriedDepthOf M box) \<le> ?t" "?t \<le> max 0 (buriedDepthOf M box)"
    using toDouble_fraction [OF r s, of "maxY box + toDouble M (maxY box - minY box)"]
    unfolding buriedDepthOf_def by blast+
  have e: "whackHeight M (spawnHeight object) (buriedDepthOf M box) st a = storedBound M object ?t"
    by (simp add: whackHeight_def storedBound_def)
  show ?thesis
    unfolding e using storedBound_mono [OF r b(1)] storedBound_mono [OF r b(2)] by simp
qed


lemma whack_step:
  assumes r: "rounding M" and inv: "whackInv M object (buriedDepthOf M (binModelBBox inst)) motion"
    and dt: "0 \<le> dt" and mi: "modelInstance object = inst # rest"
  shows "\<exists>m. miscWhackAMoleMotionFunc M object dt rnd motion = Inr (m, False)
              \<and> whackInv M object (buriedDepthOf M (binModelBBox inst)) m"
proof -
  let ?bd = "buriedDepthOf M (binModelBBox inst)"
  let ?m1 = "if timer motion = - 1 then whackRestart rnd motion else motion"
  have inv1: "whackInv M object ?bd ?m1"
    using inv by (simp add: whackInv_def whackRestart_def)
  have a0: "0 \<le> angle ?m1 + angleStep ?m1 * dt"
    using inv1 dt by (simp add: whackInv_def)
  note h = whackHeight_bounds [OF r, of _ object "binModelBBox inst"]
  show ?thesis
  proof (cases "timer ?m1 < dt")
    case False
    then show ?thesis using inv1
      by (simp add: miscWhackAMoleMotionFunc_def whackMove_def whackInv_def)
  next
    case True
    show ?thesis
    proof (cases "pi < angle ?m1 + angleStep ?m1 * dt")
      case True
      with \<open>timer ?m1 < dt\<close> inv1 mi h [of 0] show ?thesis
        by (simp add: miscWhackAMoleMotionFunc_def whackMove_def whackInv_def Let_def spawnHeight_def)
    next
      case False
      with \<open>timer ?m1 < dt\<close> inv1 mi a0 h [of "angle ?m1 + angleStep ?m1 * dt"] show ?thesis
        by (simp add: miscWhackAMoleMotionFunc_def whackMove_def whackInv_def Let_def spawnHeight_def)
    qed
  qed
qed

lemma whackRun_inv:
  assumes "rounding M" and "modelInstance object = inst # rest"
  shows "whackInv M object (buriedDepthOf M (binModelBBox inst)) motion \<Longrightarrow>
         \<forall>f \<in> set frames. 0 \<le> fst f \<Longrightarrow>
         \<exists>m. whackRun M object frames motion = Inr m
              \<and> whackInv M object (buriedDepthOf M (binModelBBox inst)) m"
proof (induction frames arbitrary: motion)
  case Nil
  then show ?case by simp
next
  case (Cons f frames)
  obtain m where m: "miscWhackAMoleMotionFunc M object (fst f) (snd f) motion = Inr (m, False)"
    and inv: "whackInv M object (buriedDepthOf M (binModelBBox inst)) m"
    using whack_step [OF assms(1) Cons.prems(1) _ assms(2), of "fst f" "snd f"] Cons.prems(2)
    by auto
  show ?case using Cons.IH [OF inv] Cons.prems(2) by (simp add: m)
qed

text \<open>
  C7, as amended. The program computes the height in doubles and stores it in a
  \<^verbatim>\<open>Float32Array\<close>. For every rounding that is monotone, idempotent and odd and keeps 0
  and 1, from the motion state the constructor gives an object whose spawn height is a
  float32, over every run of frames: the bob function keeps the height \<open>pos[1]\<close> between
  the stored values of \<open>spawn - r\<close> and \<open>spawn + r\<close>, where \<open>r\<close> is \<open>|bbox.maxY * .15|\<close> as a
  double; and the whack-a-mole function, for an object with a first sub-model and delta
  times of at least 0 (the caller clamps them to \<open>[0, 2]\<close>), returns in every frame and
  keeps \<open>pos[1]\<close> between the stored values of \<open>spawn + min 0 buriedDepth\<close> and
  \<open>spawn + max 0 buriedDepth\<close>, where \<open>buriedDepth\<close> is
  \<open>firstBBox.maxY + (firstBBox.maxY - firstBBox.minY)\<close> as a double.
\<close>

theorem bob_whack_bounds:
  assumes "rounding M"
    and "newMotionState (objectSpawn object) def params = Inr m0"
    and "toFloat32 M (toDouble M (spawnHeight object)) = spawnHeight object"
  shows "storedBound M object (- bobRadius M object) \<le> vget (pos (bobRun M object frames m0)) Y
         \<and> vget (pos (bobRun M object frames m0)) Y \<le> storedBound M object (bobRadius M object)
         \<and> ((\<forall>f \<in> set frames. 0 \<le> fst f) \<and> modelInstance object = inst # rest
            \<longrightarrow> (\<exists>m. whackRun M object frames m0 = Inr m
                  \<and> storedBound M object (min 0 (buriedDepthOf M (binModelBBox inst)))
                      \<le> vget (pos m) Y
                  \<and> vget (pos m) Y
                      \<le> storedBound M object (max 0 (buriedDepthOf M (binModelBBox inst)))))"
proof -
  have start: "vget (pos m0) Y = spawnHeight object" "angle m0 = 0" "angleStep m0 = 0"
    using new_pos [OF assms(2)] by simp_all
  have z: "storedBound M object 0 = spawnHeight object"
    using assms(3) by (simp add: storedBound_def)
  have b0: "storedBound M object (- bobRadius M object) \<le> spawnHeight object"
    "spawnHeight object \<le> storedBound M object (bobRadius M object)"
    using storedBound_mono [OF assms(1), of "- bobRadius M object" 0 object]
      storedBound_mono [OF assms(1), of 0 "bobRadius M object" object]
    by (simp_all add: z bobRadius_def)
  have "bobInv M object m0" using b0 by (simp add: bobInv_def start)
  then have "bobInv M object (bobRun M object frames m0)" by (rule bobRun_inv [OF assms(1)])
  then have bob: "storedBound M object (- bobRadius M object) \<le> vget (pos (bobRun M object frames m0)) Y"
    "vget (pos (bobRun M object frames m0)) Y \<le> storedBound M object (bobRadius M object)"
    by (simp_all add: bobInv_def)
  have whack: "\<exists>m. whackRun M object frames m0 = Inr m
                  \<and> storedBound M object (min 0 (buriedDepthOf M (binModelBBox inst)))
                      \<le> vget (pos m) Y
                  \<and> vget (pos m) Y
                      \<le> storedBound M object (max 0 (buriedDepthOf M (binModelBBox inst)))"
    if h: "(\<forall>f \<in> set frames. 0 \<le> fst f) \<and> modelInstance object = inst # rest"
  proof -
    let ?bd = "buriedDepthOf M (binModelBBox inst)"
    have w0: "storedBound M object (min 0 ?bd) \<le> spawnHeight object"
      "spawnHeight object \<le> storedBound M object (max 0 ?bd)"
      using storedBound_mono [OF assms(1), of "min 0 ?bd" 0 object]
        storedBound_mono [OF assms(1), of 0 "max 0 ?bd" object]
      by (simp_all add: z)
    have "whackInv M object ?bd m0" using w0 by (simp add: whackInv_def start)
    from whackRun_inv [OF assms(1) _ this, of rest frames] h
    show ?thesis by (auto simp add: whackInv_def)
  qed
  show ?thesis using bob whack by blast
qed

lemma float_ints: "fpRound 24 3 = 3"
  using fpRound_exact [of 1 3 24 "3 * 2 ^ 22"] by (simp add: powr_neg_numeral)

lemma example_bounds:
  "spawnHeight (exampleObject 0) = 0"
  "bobRadius glMatrix (exampleObject 0) = 5404319552844595 / 2 ^ 55"
  "buriedDepthOf glMatrix exampleBox = 3"
  "storedBound glMatrix (exampleObject 0) 0 = 0"
  "storedBound glMatrix (exampleObject 0) 3 = 3"
  "storedBound glMatrix (exampleObject 0) (5404319552844595 / 2 ^ 55) = 10066330 / 2 ^ 26"
  "storedBound glMatrix (exampleObject 0) (- (5404319552844595 / 2 ^ 55)) = - (10066330 / 2 ^ 26)"
proof -
  have t: "toDouble glMatrix = fpRound 53" "toFloat32 glMatrix = fpRound 24"
    by (simp_all add: glMatrix_def)
  have i: "fpRound 53 (5404319552844595 / 2 ^ 55) = 5404319552844595 / 2 ^ 55"
    using fpRound_idem [of 53 "0.15"] unfolding double_015 by simp
  show h: "spawnHeight (exampleObject 0) = 0"
    by (simp add: spawnHeight_def exampleObject_def exampleSpawn_def mat4_identity_def)
  have mx: "maxY (bbox (exampleObject 0)) = 1" by (simp add: exampleObject_def exampleBox_def)
  show "bobRadius glMatrix (exampleObject 0) = 5404319552844595 / 2 ^ 55"
    unfolding bobRadius_def t mx double_015 mult_1_left i by simp
  show "buriedDepthOf glMatrix exampleBox = 3"
    unfolding buriedDepthOf_def t by (simp add: exampleBox_def double_ints)
  show "storedBound glMatrix (exampleObject 0) 0 = 0"
    unfolding storedBound_def t h by simp
  show "storedBound glMatrix (exampleObject 0) 3 = 3"
    unfolding storedBound_def t h by (simp add: double_ints float_ints)
  show "storedBound glMatrix (exampleObject 0) (5404319552844595 / 2 ^ 55) = 10066330 / 2 ^ 26"
    unfolding storedBound_def t h by (simp only: add_0 i float_015)
  show "storedBound glMatrix (exampleObject 0) (- (5404319552844595 / 2 ^ 55)) = - (10066330 / 2 ^ 26)"
    unfolding storedBound_def t h by (simp only: add_0 fpRound_minus i float_015)
qed

theorem bob_whack_bounds_witness:
  "rounding glMatrix
   \<and> newMotionState (objectSpawn (exampleObject 0)) exampleDef exampleParams = Inr (exampleStart 0)
   \<and> toFloat32 glMatrix (toDouble glMatrix (spawnHeight (exampleObject 0))) = spawnHeight (exampleObject 0)
   \<and> - (10066330 / 2 ^ 26)
        \<le> vget (pos (bobRun glMatrix (exampleObject 0) [(1, 0), (100, 1 / 2), (2, 0)] (exampleStart 0))) Y
   \<and> vget (pos (bobRun glMatrix (exampleObject 0) [(1, 0), (100, 1 / 2), (2, 0)] (exampleStart 0))) Y
        \<le> 10066330 / 2 ^ 26
   \<and> modelInstance (exampleObject 0) = [exampleInstance]
   \<and> (\<exists>m. whackRun glMatrix (exampleObject 0) [(1, 0), (100, 1 / 2), (2, 0)] (exampleStart 0) = Inr m
          \<and> 0 \<le> vget (pos m) Y \<and> vget (pos m) Y \<le> 3)"
proof -
  have h1: "newMotionState (objectSpawn (exampleObject 0)) exampleDef exampleParams = Inr (exampleStart 0)"
    by (simp add: exampleObject_def exampleStart_new)
  have h2: "toFloat32 glMatrix (toDouble glMatrix (spawnHeight (exampleObject 0))) = spawnHeight (exampleObject 0)"
    by (simp add: example_bounds(1) glMatrix_def)
  have h3: "(\<forall>f \<in> set [(1, 0), (100, 1 / 2), (2, 0 :: real)]. (0::real) \<le> fst f)
      \<and> modelInstance (exampleObject 0) = exampleInstance # []"
    by (simp add: exampleObject_def)
  have bb: "binModelBBox exampleInstance = exampleBox" by (simp add: exampleInstance_def)
  have mi: "modelInstance (exampleObject 0) = [exampleInstance]" using h3 by simp
  have mm: "min 0 (3::real) = 0" "max 0 (3::real) = 3" by simp_all
  from bob_whack_bounds [OF rounding_glMatrix h1 h2, of "[(1, 0), (100, 1 / 2), (2, 0)]" exampleInstance "[]"] h3
  have "storedBound glMatrix (exampleObject 0) (- bobRadius glMatrix (exampleObject 0))
          \<le> vget (pos (bobRun glMatrix (exampleObject 0) [(1, 0), (100, 1 / 2), (2, 0)] (exampleStart 0))) Y"
    and "vget (pos (bobRun glMatrix (exampleObject 0) [(1, 0), (100, 1 / 2), (2, 0)] (exampleStart 0))) Y
          \<le> storedBound glMatrix (exampleObject 0) (bobRadius glMatrix (exampleObject 0))"
    and "\<exists>m. whackRun glMatrix (exampleObject 0) [(1, 0), (100, 1 / 2), (2, 0)] (exampleStart 0) = Inr m
                  \<and> storedBound glMatrix (exampleObject 0) (min 0 (buriedDepthOf glMatrix (binModelBBox exampleInstance)))
                      \<le> vget (pos m) Y
                  \<and> vget (pos m) Y
                      \<le> storedBound glMatrix (exampleObject 0) (max 0 (buriedDepthOf glMatrix (binModelBBox exampleInstance)))"
    by blast+
  then have "- (10066330 / 2 ^ 26)
          \<le> vget (pos (bobRun glMatrix (exampleObject 0) [(1, 0), (100, 1 / 2), (2, 0)] (exampleStart 0))) Y"
    and "vget (pos (bobRun glMatrix (exampleObject 0) [(1, 0), (100, 1 / 2), (2, 0)] (exampleStart 0))) Y
          \<le> 10066330 / 2 ^ 26"
    and "\<exists>m. whackRun glMatrix (exampleObject 0) [(1, 0), (100, 1 / 2), (2, 0)] (exampleStart 0) = Inr m
                  \<and> 0 \<le> vget (pos m) Y \<and> vget (pos m) Y \<le> 3"
    unfolding bb example_bounds mm by blast+
  then show ?thesis using rounding_glMatrix h1 h2 mi by blast
qed

text \<open>Frames of half a frame's time each, from a state whose timer has run out or is
  about to be drawn as 0: every call moves the object.\<close>

lemma bob_half_frame:
  assumes "timer m = 0 \<or> timer m = - 1"
  shows "timer (fst (miscBobMotionFunc M object (1 / 2) 0 m)) = 0
         \<and> angle (fst (miscBobMotionFunc M object (1 / 2) 0 m)) = angle m + pi / 90
         \<and> vget (pos (fst (miscBobMotionFunc M object (1 / 2) 0 m))) Y =
             bobHeight M (spawnHeight object) (maxY (bbox object)) (angle m + pi / 90)"
  using assms by (auto simp add: miscBobMotionFunc_def Let_def spawnHeight_def)

lemma bob_half_frames:
  "timer m = 0 \<or> timer m = - 1 \<Longrightarrow>
   vget (pos (bobRun M object (replicate (Suc n) (1 / 2, 0)) m)) Y =
     bobHeight M (spawnHeight object) (maxY (bbox object)) (angle m + real (Suc n) * pi / 90)"
proof (induction n arbitrary: m)
  case 0
  then show ?case using bob_half_frame [OF 0, of M object] by simp
next
  case (Suc n)
  let ?m = "fst (miscBobMotionFunc M object (1 / 2) 0 m)"
  have t: "timer ?m = 0 \<or> timer ?m = - 1" and a: "angle ?m = angle m + pi / 90"
    using bob_half_frame [OF Suc.prems, of M object] by simp_all
  have e: "bobRun M object (replicate (Suc (Suc n)) (1 / 2, 0)) m
          = bobRun M object (replicate (Suc n) (1 / 2, 0)) ?m"
    by simp
  have ae: "angle m + pi / 90 + real (Suc n) * pi / 90 = angle m + real (Suc (Suc n)) * pi / 90"
    by (simp add: algebra_simps)
  show ?case
    unfolding e Suc.IH [OF t] a ae by (rule refl)
qed

text \<open>
  C7 as stated, with the bound \<open>bbox.maxY * 0.15\<close> itself, fails. The object spawned at
  height 0 with \<open>bbox.maxY = 1\<close>, after 45 frames of half a frame's time, is at the angle
  \<open>pi / 2\<close>, and the height stored is the float32 nearest to the double nearest to 0.15,
  \<open>10066330 / 2 ^ 26\<close>, which is more than 0.15.
\<close>

theorem bob_rounding_counterexample:
  "newMotionState (objectSpawn (exampleObject 0)) exampleDef exampleParams = Inr (exampleStart 0)
   \<and> spawnHeight (exampleObject 0) = 0
   \<and> maxY (bbox (exampleObject 0)) = 1
   \<and> vget (pos (bobRun glMatrix (exampleObject 0) (replicate 45 (1 / 2, 0)) (exampleStart 0))) Y
        = 10066330 / 2 ^ 26
   \<and> \<not> \<bar>vget (pos (bobRun glMatrix (exampleObject 0) (replicate 45 (1 / 2, 0)) (exampleStart 0))) Y
           - spawnHeight (exampleObject 0)\<bar> \<le> maxY (bbox (exampleObject 0)) * 0.15"
proof -
  have h1: "newMotionState (objectSpawn (exampleObject 0)) exampleDef exampleParams = Inr (exampleStart 0)"
    by (simp add: exampleObject_def exampleStart_new)
  have mx: "maxY (bbox (exampleObject 0)) = 1" by (simp add: exampleObject_def exampleBox_def)
  have t: "timer (exampleStart 0) = 0 \<or> timer (exampleStart 0) = - 1" "angle (exampleStart 0) = 0"
    by (simp_all add: exampleStart_def)
  have i: "fpRound 53 (5404319552844595 / 2 ^ 55) = 5404319552844595 / 2 ^ 55"
    using fpRound_idem [of 53 "0.15"] unfolding double_015 by simp
  have "vget (pos (bobRun glMatrix (exampleObject 0) (replicate (Suc 44) (1 / 2, 0)) (exampleStart 0))) Y
          = bobHeight glMatrix 0 1 (pi / 2)"
    unfolding bob_half_frames [OF t(1)] t(2) mx example_bounds(1) by simp
  also have "\<dots> = fpRound 24 (fpRound 53 (fpRound 53 (fpRound 53 (fpRound 53 0.15))))"
    by (simp add: bobHeight_def glMatrix_def)
  also have "\<dots> = 10066330 / 2 ^ 26"
    by (simp only: double_015 i float_015)
  finally have p: "vget (pos (bobRun glMatrix (exampleObject 0) (replicate 45 (1 / 2, 0)) (exampleStart 0))) Y
          = 10066330 / 2 ^ 26"
    by simp
  show ?thesis
    unfolding p by (simp add: h1 mx example_bounds(1))
qed

subsection \<open>The pitch blend\<close>

lemma pitch_idle: "angleStep (snd sm) * dt = 0 \<Longrightarrow> adjustBasePitch M dt sm = sm"
  by (simp add: adjustBasePitch_def)

lemma pitchRun_idle: "angleStep (snd sm) = 0 \<Longrightarrow> pitchRun M dts sm = sm"
  by (induction dts) (simp_all add: pitch_idle)

lemma pitch_target: "angleTarget (snd (adjustBasePitch M dt sm)) = angleTarget (snd sm)"
  by (simp add: adjustBasePitch_def Let_def)

lemma pitch_step_cases:
  assumes "angleStep (snd sm) * dt \<noteq> 0"
  shows "(angle (snd (adjustBasePitch M dt sm)) = angleTarget (snd sm)
           \<and> angleStep (snd (adjustBasePitch M dt sm)) = 0)
         \<or> (angle (snd (adjustBasePitch M dt sm)) = angle (snd sm) + angleStep (snd sm) * dt
           \<and> angleStep (snd (adjustBasePitch M dt sm)) = angleStep (snd sm)
           \<and> 0 \<le> (angleTarget (snd sm) - angle (snd (adjustBasePitch M dt sm))) * angleStep (snd sm))"
  using assms by (auto simp add: adjustBasePitch_def Let_def not_less)

lemma pitch_split:
  assumes "angleStep (snd sm) * dt \<noteq> 0"
  shows "if (angleTarget (snd sm) - (angle (snd sm) + angleStep (snd sm) * dt)) * angleStep (snd sm) < 0
         then angle (snd (adjustBasePitch M dt sm)) = angleTarget (snd sm)
              \<and> angleStep (snd (adjustBasePitch M dt sm)) = 0
         else angle (snd (adjustBasePitch M dt sm)) = angle (snd sm) + angleStep (snd sm) * dt
              \<and> angleStep (snd (adjustBasePitch M dt sm)) = angleStep (snd sm)
              \<and> 0 \<le> (angleTarget (snd sm) - angle (snd (adjustBasePitch M dt sm))) * angleStep (snd sm)"
  using assms by (simp add: adjustBasePitch_def Let_def not_less)

lemma pitch_progress:
  fixes t a s dt d :: real
  assumes "0 \<le> (t - (a + s * dt)) * s" and "s \<noteq> 0" and "d \<le> dt" and "0 \<le> d"
  shows "\<bar>t - (a + s * dt)\<bar> \<le> \<bar>t - a\<bar> - \<bar>s\<bar> * d"
proof (cases "0 < s")
  case True
  then have "0 \<le> t - (a + s * dt)" using assms(1) zero_le_mult_iff [of "t - (a + s * dt)" s] by auto
  moreover have "s * d \<le> s * dt" using True assms(3) by simp
  moreover have "\<bar>s\<bar> = s" using True by simp
  ultimately show ?thesis by linarith
next
  case False
  then have neg: "s < 0" using assms(2) by simp
  then have "t - (a + s * dt) \<le> 0" using assms(1) zero_le_mult_iff [of "t - (a + s * dt)" s] by auto
  moreover have "s * dt \<le> s * d" using neg assms(3) by simp
  moreover have "\<bar>s\<bar> * d = - (s * d)" using neg by simp
  ultimately show ?thesis by linarith
qed

lemma pitch_terminates:
  assumes "0 < d"
  shows "\<forall>dt \<in> set dts. d \<le> dt \<Longrightarrow>
         \<bar>angleTarget (snd sm) - angle (snd sm)\<bar> < \<bar>angleStep (snd sm)\<bar> * d * real (length dts) \<Longrightarrow>
         angleStep (snd (pitchRun M dts sm)) = 0"
proof (induction dts arbitrary: sm)
  case Nil
  then show ?case by simp
next
  case (Cons dt dts)
  let ?sm = "adjustBasePitch M dt sm"
  have dt: "d \<le> dt" "\<forall>x \<in> set dts. d \<le> x" using Cons.prems(1) by simp_all
  show ?case
  proof (cases "angleStep (snd sm) = 0")
    case True
    then have "pitchRun M (dt # dts) sm = sm" by (rule pitchRun_idle)
    then show ?thesis using True by simp
  next
    case False
    then have nz: "angleStep (snd sm) * dt \<noteq> 0" using dt(1) assms by simp
    from pitch_step_cases [OF nz, of M]
    show ?thesis
    proof
      assume "angle (snd ?sm) = angleTarget (snd sm) \<and> angleStep (snd ?sm) = 0"
      then show ?thesis by (simp add: pitchRun_idle)
    next
      assume b: "angle (snd ?sm) = angle (snd sm) + angleStep (snd sm) * dt
           \<and> angleStep (snd ?sm) = angleStep (snd sm)
           \<and> 0 \<le> (angleTarget (snd sm) - angle (snd ?sm)) * angleStep (snd sm)"
      have b1: "angle (snd ?sm) = angle (snd sm) + angleStep (snd sm) * dt" using b by simp
      have b2: "0 \<le> (angleTarget (snd sm) - (angle (snd sm) + angleStep (snd sm) * dt)) * angleStep (snd sm)"
        using b unfolding b1 by blast
      have "\<bar>angleTarget (snd sm) - angle (snd ?sm)\<bar>
              \<le> \<bar>angleTarget (snd sm) - angle (snd sm)\<bar> - \<bar>angleStep (snd sm)\<bar> * d"
        unfolding b1 using assms by (intro pitch_progress [OF b2 False dt(1)]) simp
      also have "\<dots> < \<bar>angleStep (snd sm)\<bar> * d * real (length dts)"
        using Cons.prems(2) by (simp add: algebra_simps)
      finally have "\<bar>angleTarget (snd ?sm) - angle (snd ?sm)\<bar>
              < \<bar>angleStep (snd ?sm)\<bar> * d * real (length dts)"
        using b by (simp add: pitch_target)
      from Cons.IH [OF dt(2) this] show ?thesis by simp
    qed
  qed
qed

text \<open>
  C3, as amended. A call of \<^verbatim>\<open>adjustBasePitch\<close> never changes the target; it
  changes nothing when \<open>angleStep * dt = 0\<close>; otherwise, with
  \<open>delta = (angleTarget - (angle + angleStep * dt)) * angleStep\<close>, it snaps (the angle is
  the target and the step is 0) exactly when \<open>delta < 0\<close>, that is when the step would
  pass the target, and when \<open>0 \<le> delta\<close> it advances the angle by \<open>angleStep * dt\<close>,
  which does not pass the target, and keeps the step. For \<open>dt \<ge> 0\<close> the angle is never farther from the target after the call
  than before. With delta times of at least \<open>d > 0\<close> the step is 0 after finitely many
  calls, and once the step is 0 no further call changes the state (the base included).
\<close>

theorem pitch_blend:
  "angleTarget (snd (adjustBasePitch M dt sm)) = angleTarget (snd sm)
   \<and> (angleStep (snd sm) * dt = 0 \<longrightarrow> adjustBasePitch M dt sm = sm)
   \<and> (angleStep (snd sm) * dt \<noteq> 0 \<longrightarrow>
        (if (angleTarget (snd sm) - (angle (snd sm) + angleStep (snd sm) * dt)) * angleStep (snd sm) < 0
         then angle (snd (adjustBasePitch M dt sm)) = angleTarget (snd sm)
              \<and> angleStep (snd (adjustBasePitch M dt sm)) = 0
         else angle (snd (adjustBasePitch M dt sm)) = angle (snd sm) + angleStep (snd sm) * dt
              \<and> angleStep (snd (adjustBasePitch M dt sm)) = angleStep (snd sm)
              \<and> 0 \<le> (angleTarget (snd sm) - angle (snd (adjustBasePitch M dt sm))) * angleStep (snd sm)))
   \<and> (0 \<le> dt \<longrightarrow>
        \<bar>angleTarget (snd sm) - angle (snd (adjustBasePitch M dt sm))\<bar>
          \<le> \<bar>angleTarget (snd sm) - angle (snd sm)\<bar>)
   \<and> (0 < d \<and> (\<forall>x \<in> set dts. d \<le> x)
        \<and> \<bar>angleTarget (snd sm) - angle (snd sm)\<bar> < \<bar>angleStep (snd sm)\<bar> * d * real (length dts)
        \<longrightarrow> angleStep (snd (pitchRun M dts sm)) = 0)
   \<and> (angleStep (snd sm) = 0 \<longrightarrow> pitchRun M dts sm = sm)"
proof (intro conjI impI)
  show "angleTarget (snd (adjustBasePitch M dt sm)) = angleTarget (snd sm)"
    by (rule pitch_target)
  show "adjustBasePitch M dt sm = sm" if "angleStep (snd sm) * dt = 0"
    using that by (rule pitch_idle)
  show "if (angleTarget (snd sm) - (angle (snd sm) + angleStep (snd sm) * dt)) * angleStep (snd sm) < 0
         then angle (snd (adjustBasePitch M dt sm)) = angleTarget (snd sm)
              \<and> angleStep (snd (adjustBasePitch M dt sm)) = 0
         else angle (snd (adjustBasePitch M dt sm)) = angle (snd sm) + angleStep (snd sm) * dt
              \<and> angleStep (snd (adjustBasePitch M dt sm)) = angleStep (snd sm)
              \<and> 0 \<le> (angleTarget (snd sm) - angle (snd (adjustBasePitch M dt sm))) * angleStep (snd sm)"
    if "angleStep (snd sm) * dt \<noteq> 0"
    using that by (rule pitch_split)
  show "\<bar>angleTarget (snd sm) - angle (snd (adjustBasePitch M dt sm))\<bar>
          \<le> \<bar>angleTarget (snd sm) - angle (snd sm)\<bar>" if dt: "0 \<le> dt"
  proof (cases "angleStep (snd sm) * dt = 0")
    case True
    then show ?thesis by (simp add: pitch_idle)
  next
    case False
    then have nz: "angleStep (snd sm) \<noteq> 0" by auto
    from pitch_step_cases [OF False, of M] show ?thesis
    proof
      assume "angle (snd (adjustBasePitch M dt sm)) = angleTarget (snd sm)
           \<and> angleStep (snd (adjustBasePitch M dt sm)) = 0"
      then show ?thesis by simp
    next
      assume b: "angle (snd (adjustBasePitch M dt sm)) = angle (snd sm) + angleStep (snd sm) * dt
           \<and> angleStep (snd (adjustBasePitch M dt sm)) = angleStep (snd sm)
           \<and> 0 \<le> (angleTarget (snd sm) - angle (snd (adjustBasePitch M dt sm))) * angleStep (snd sm)"
      have b1: "angle (snd (adjustBasePitch M dt sm)) = angle (snd sm) + angleStep (snd sm) * dt"
        using b by simp
      have b2: "0 \<le> (angleTarget (snd sm) - (angle (snd sm) + angleStep (snd sm) * dt)) * angleStep (snd sm)"
        using b unfolding b1 by blast
      show ?thesis
        unfolding b1 using pitch_progress [OF b2 nz dt] by simp
    qed
  qed
  show "angleStep (snd (pitchRun M dts sm)) = 0"
    if "0 < d \<and> (\<forall>x \<in> set dts. d \<le> x)
        \<and> \<bar>angleTarget (snd sm) - angle (snd sm)\<bar> < \<bar>angleStep (snd sm)\<bar> * d * real (length dts)"
    using that pitch_terminates [of d dts sm M] by blast
  show "pitchRun M dts sm = sm" if "angleStep (snd sm) = 0"
    using that by (rule pitchRun_idle)
qed

text \<open>
  A step can land exactly on the target: the snap tests \<open>delta < 0\<close>, so the angle
  equals the target while the step is not 0, and the next call changes the base (its
  entry 5 goes from 0 to 1).
\<close>

theorem pitch_landing_counterexample:
  "angle (snd (adjustBasePitch glMatrix 1 (mat4_identity, pitchExample (pi / 2)))) =
     angleTarget (snd (adjustBasePitch glMatrix 1 (mat4_identity, pitchExample (pi / 2))))
   \<and> angleStep (snd (adjustBasePitch glMatrix 1 (mat4_identity, pitchExample (pi / 2)))) \<noteq> 0
   \<and> base (snd (pitchRun glMatrix [1] (mat4_identity, pitchExample (pi / 2)))) 5 = 0
   \<and> base (snd (pitchRun glMatrix [1, 1] (mat4_identity, pitchExample (pi / 2)))) 5 = 1"
  by (simp add: adjustBasePitch_def pitchExample_def exampleStart_def glMatrix_def Let_def
      gl_fromRotation_def gl_mul_def vec3_length_def gl_EPSILON_def mat4_of_list_def
      mat4_identity_def Math_atan2_def Math_hypot_def sqrt_squares mult_less_0_iff)

theorem pitch_blend_witness:
  "(0::real) < 1 \<and> \<bar>angleTarget (pitchExample (pi / 8)) - angle (pitchExample (pi / 8))\<bar>
       < \<bar>angleStep (pitchExample (pi / 8))\<bar> * 1 * real (length [1, 1, 1, 1, 1 :: real])
   \<and> angleStep (snd (pitchRun glMatrix [1, 1, 1, 1, 1] (mat4_identity, pitchExample (pi / 8)))) = 0
   \<and> angleStep (pitchExample 0) = 0
   \<and> pitchRun glMatrix [1, 2] (mat4_identity, pitchExample 0) = (mat4_identity, pitchExample 0)
   \<and> angleStep (pitchExample (pi / 8)) * 1 \<noteq> 0
   \<and> \<not> (angleTarget (pitchExample (pi / 8))
          - (angle (pitchExample (pi / 8)) + angleStep (pitchExample (pi / 8)) * 1))
        * angleStep (pitchExample (pi / 8)) < 0
   \<and> angle (snd (adjustBasePitch glMatrix 1 (mat4_identity, pitchExample (pi / 8)))) = pi / 8
   \<and> angleStep (snd (adjustBasePitch glMatrix 1 (mat4_identity, pitchExample (pi / 8)))) = pi / 8
   \<and> angleStep (pitchExample pi) * 1 \<noteq> 0
   \<and> (angleTarget (pitchExample pi) - (angle (pitchExample pi) + angleStep (pitchExample pi) * 1))
        * angleStep (pitchExample pi) < 0
   \<and> angle (snd (adjustBasePitch glMatrix 1 (mat4_identity, pitchExample pi))) = pi / 2
   \<and> angleStep (snd (adjustBasePitch glMatrix 1 (mat4_identity, pitchExample pi))) = 0"
proof -
  let ?sm = "(mat4_identity, pitchExample (pi / 8))"
  let ?idle = "(mat4_identity, pitchExample 0)"
  let ?far = "(mat4_identity, pitchExample pi)"
  have f: "angle (pitchExample s) = 0" "angleStep (pitchExample s) = s"
    "angleTarget (pitchExample s) = pi / 2" for s
    by (simp_all add: pitchExample_def exampleStart_def)
  have h1: "\<bar>angleTarget (pitchExample (pi / 8)) - angle (pitchExample (pi / 8))\<bar>
       < \<bar>angleStep (pitchExample (pi / 8))\<bar> * 1 * real (length [1, 1, 1, 1, 1 :: real])"
    by (simp add: f)
  have h2: "\<forall>x \<in> set [1, 1, 1, 1, 1 :: real]. 1 \<le> x" by simp
  have h0: "(0::real) < 1" by simp
  have h3: "angleStep (pitchExample 0) = 0" by (simp add: f)
  have n1: "angleStep (snd ?sm) * 1 \<noteq> 0" by (simp add: f)
  have d1: "\<not> (angleTarget (snd ?sm) - (angle (snd ?sm) + angleStep (snd ?sm) * 1))
        * angleStep (snd ?sm) < 0"
    by (simp add: f mult_less_0_iff)
  have n2: "angleStep (snd ?far) * 1 \<noteq> 0" by (simp add: f)
  have d2: "(angleTarget (snd ?far) - (angle (snd ?far) + angleStep (snd ?far) * 1))
        * angleStep (snd ?far) < 0"
    by (simp add: f mult_less_0_iff)
  have "angleStep (snd (pitchRun glMatrix [1, 1, 1, 1, 1] ?sm)) = 0"
    using pitch_blend [of glMatrix 1 ?sm 1 "[1, 1, 1, 1, 1]"] h0 h1 h2 by (simp only: snd_conv; blast)
  moreover have "pitchRun glMatrix [1, 2] ?idle = ?idle"
    using pitch_blend [of glMatrix 1 ?idle 1 "[1, 2]"] h3 by (simp only: snd_conv; blast)
  moreover have "angle (snd (adjustBasePitch glMatrix 1 ?sm)) = angle (snd ?sm) + angleStep (snd ?sm) * 1
      \<and> angleStep (snd (adjustBasePitch glMatrix 1 ?sm)) = angleStep (snd ?sm)"
    using pitch_blend [of glMatrix 1 ?sm 1 "[]"] n1 d1 by (simp only: if_False; blast)
  moreover have "angle (snd (adjustBasePitch glMatrix 1 ?far)) = angleTarget (snd ?far)
      \<and> angleStep (snd (adjustBasePitch glMatrix 1 ?far)) = 0"
    using pitch_blend [of glMatrix 1 ?far 1 "[]"] n2 d2 by (simp only: if_True; blast)
  ultimately show ?thesis using h1 h3 n1 d1 n2 d2 by (simp add: f)
qed

subsection \<open>The updates of a path follower\<close>

lemma vset_same [simp]: "vset v a (vget v a) = v"
  by (cases v; cases a) simp_all

lemma vec3_scaleAndAdd_0 [simp]: "vec3_scaleAndAdd a b 0 = a"
  by (cases a) (simp add: vec3_scaleAndAdd_def)

lemma advanceYaw_settled: "yawSettled M (advanceYaw M dt motion)"
  by (simp add: yawSettled_def advanceYaw_def Let_def)

lemma advanceYaw_fields:
  "pathIndex (advanceYaw M dt motion) = pathIndex motion
   \<and> eulerTarget (advanceYaw M dt motion) = eulerTarget motion
   \<and> pos (advanceYaw M dt motion) = pos motion
   \<and> velocity (advanceYaw M dt motion) = velocity motion"
  by (simp add: advanceYaw_def Let_def)

lemma adjustBasePitch_fields:
  "pathIndex (snd (adjustBasePitch M dt sm)) = pathIndex (snd sm)
   \<and> euler (snd (adjustBasePitch M dt sm)) = euler (snd sm)
   \<and> eulerStep (snd (adjustBasePitch M dt sm)) = eulerStep (snd sm)
   \<and> eulerTarget (snd (adjustBasePitch M dt sm)) = eulerTarget (snd sm)
   \<and> target (snd (adjustBasePitch M dt sm)) = target (snd sm)
   \<and> pos (snd (adjustBasePitch M dt sm)) = pos (snd sm)
   \<and> speed (snd (adjustBasePitch M dt sm)) = speed (snd sm)
   \<and> parameters (snd (adjustBasePitch M dt sm)) = parameters (snd sm)"
  by (simp add: adjustBasePitch_def Let_def)

lemma pathPoint_range:
  "pathPoint path i = Inr p \<Longrightarrow> 0 \<le> i \<and> 4 * i + 2 < int (length path)"
  by (auto simp add: pathPoint_def split: if_splits)

lemma targetNextPoint_pathIndex:
  assumes "targetNextPoint M motion yOffset = Inr m"
  shows "0 \<le> pathIndex m \<and> 4 * pathIndex m + 2 < int (length (pathPoints (parameters m)))"
  using assms
  by (auto simp add: targetNextPoint_def Let_def split: sum.splits if_splits dest: pathPoint_range)

lemma followPathStart_pathIndex:
  assumes "followPathStart M object motion = Inr m"
  shows "0 \<le> pathIndex m \<and> 4 * pathIndex m + 2 < int (length (pathPoints (parameters m)))"
  using assms
  by (auto simp add: followPathStart_def Let_def split: sum.splits dest: pathPoint_range)

lemma targetNextPoint_parameters:
  "targetNextPoint M motion yOffset = Inr m \<Longrightarrow> parameters m = parameters motion"
  by (auto simp add: targetNextPoint_def Let_def split: sum.splits if_splits)

lemma followPathStart_parameters:
  "followPathStart M object motion = Inr m \<Longrightarrow> parameters m = parameters motion"
  by (auto simp add: followPathStart_def Let_def split: sum.splits)

lemma targetNextPoint_wraps:
  assumes "targetNextPoint M motion yOffset = Inr m"
    and "length (pathPoints (parameters motion)) = 4 * n"
  shows "pathIndex m = (if pathIndex motion + 1 = int n then 0 else pathIndex motion + 1)"
  using assms
  by (auto simp add: targetNextPoint_def Let_def split: sum.splits if_splits)

text \<open>An update that returns a state leaves the path index inside the path, when it was
  inside or the follower was not initialized.\<close>

lemma followPath_pathIndex_range:
  assumes "fst (followPath M object dt sm) = Inr sm'"
    and "pathIndex (snd sm) < 0
         \<or> 4 * pathIndex (snd sm) + 2 < int (length (pathPoints (parameters (snd sm))))"
  shows "0 \<le> pathIndex (snd sm')
         \<and> 4 * pathIndex (snd sm') + 2 < int (length (pathPoints (parameters (snd sm'))))"
proof -
  obtain m1 where m1: "(if pathIndex (snd sm) < 0 then followPathStart M object (snd sm) else Inr (snd sm)) = Inr m1"
    using assms(1) by (auto simp add: followPath_def split: sum.splits)
  have i1: "0 \<le> pathIndex m1 \<and> 4 * pathIndex m1 + 2 < int (length (pathPoints (parameters m1)))"
    using m1 followPathStart_pathIndex [of M object "snd sm" m1] assms(2) by (auto split: if_splits)
  let ?sm2 = "if adjustPitch m1 then adjustBasePitch M dt (fst sm, m1) else (fst sm, m1)"
  have i2: "0 \<le> pathIndex (snd ?sm2)
      \<and> 4 * pathIndex (snd ?sm2) + 2 < int (length (pathPoints (parameters (snd ?sm2))))"
    using i1 by (simp add: adjustBasePitch_fields)
  obtain m3 where m3: "(if vec3_dist M (target (snd ?sm2)) (pos (snd ?sm2)) \<le> speed (snd ?sm2) * dt
                    then targetNextPoint M (snd ?sm2) (maxY (bbox object))
                    else Inr (snd ?sm2)) = Inr m3"
    using assms(1) m1 by (auto simp add: followPath_def Let_def split: sum.splits)
  have i3: "0 \<le> pathIndex m3 \<and> 4 * pathIndex m3 + 2 < int (length (pathPoints (parameters m3)))"
    using m3 i2 targetNextPoint_pathIndex [of M "snd ?sm2" "maxY (bbox object)" m3]
    by (auto split: if_splits)
  have "sm' = (fst ?sm2, (advanceYaw M dt m3)\<lparr>pos := vec3_scaleAndAdd (pos (advanceYaw M dt m3)) (velocity (advanceYaw M dt m3)) dt\<rparr>)"
    using assms(1) m1 m3 by (simp add: followPath_def Let_def)
  then show ?thesis
    using i3 by (simp add: advanceYaw_def Let_def)
qed

lemma followPath_no_retarget:
  assumes "0 \<le> pathIndex (snd sm)"
    and "\<not> vec3_dist M (target (snd sm)) (pos (snd sm)) \<le> speed (snd sm) * dt"
  shows "fst (followPath M object dt sm) =
           Inr (fst (if adjustPitch (snd sm) then adjustBasePitch M dt sm else sm),
                (advanceYaw M dt (snd (if adjustPitch (snd sm) then adjustBasePitch M dt sm else sm)))
                  \<lparr>pos := vec3_scaleAndAdd (pos (snd sm))
                     (velocity (snd (if adjustPitch (snd sm) then adjustBasePitch M dt sm else sm))) dt\<rparr>)"
  using assms
  by (simp add: followPath_def Let_def adjustBasePitch_fields advanceYaw_fields)

lemma followPath_post:
  assumes "fst (followPath M object dt sm) = Inr sm'"
  shows "0 \<le> pathIndex (snd sm') \<and> yawSettled M (snd sm')"
proof -
  obtain m1 where m1: "(if pathIndex (snd sm) < 0 then followPathStart M object (snd sm) else Inr (snd sm)) = Inr m1"
    using assms by (auto simp add: followPath_def split: sum.splits)
  have i1: "0 \<le> pathIndex m1"
    using m1 followPathStart_pathIndex [of M object "snd sm" m1] by (auto split: if_splits)
  let ?sm2 = "if adjustPitch m1 then adjustBasePitch M dt (fst sm, m1) else (fst sm, m1)"
  have i2: "0 \<le> pathIndex (snd ?sm2)" using i1 by (simp add: adjustBasePitch_fields)
  obtain m3 where m3: "(if vec3_dist M (target (snd ?sm2)) (pos (snd ?sm2)) \<le> speed (snd ?sm2) * dt
                    then targetNextPoint M (snd ?sm2) (maxY (bbox object))
                    else Inr (snd ?sm2)) = Inr m3"
    using assms m1 by (auto simp add: followPath_def Let_def split: sum.splits)
  have i3: "0 \<le> pathIndex m3"
    using m3 i2 targetNextPoint_pathIndex [of M "snd ?sm2" "maxY (bbox object)" m3]
    by (auto split: if_splits)
  have "sm' = (fst ?sm2, (advanceYaw M dt m3)\<lparr>pos := vec3_scaleAndAdd (pos (advanceYaw M dt m3)) (velocity (advanceYaw M dt m3)) dt\<rparr>)"
    using assms m1 m3 by (simp add: followPath_def Let_def)
  then show ?thesis
    using i3 advanceYaw_settled [of M dt m3]
    by (simp add: advanceYaw_fields yawSettled_def)
qed

lemma zero_delta_static:
  assumes "0 \<le> pathIndex (snd sm)"
    and "0 < vec3_dist M (target (snd sm)) (pos (snd sm))"
    and "yawSettled M (snd sm)"
  shows "followPath M object 0 sm = (Inr sm, True)"
proof -
  have a: "adjustBasePitch M 0 sm = sm" by (simp add: adjustBasePitch_def)
  have y: "advanceYaw M 0 (snd sm) = snd sm"
  proof (cases "vget (euler (snd sm)) Y = vget (eulerTarget (snd sm)) Y
      \<and> vget (eulerStep (snd sm)) Y = 0")
    case True
    have e: "vset (euler (snd sm)) Y (vget (eulerTarget (snd sm)) Y) = euler (snd sm)"
      using True vset_same [of "euler (snd sm)" Y] by metis
    have st: "vset (eulerStep (snd sm)) Y 0 = eulerStep (snd sm)"
      using True vset_same [of "eulerStep (snd sm)" Y] by metis
    show ?thesis
      by (simp add: advanceYaw_def Let_def True e st)
  next
    case False
    then have "sgn (vget (eulerStep (snd sm)) Y) =
        sgn (angleDist M (vget (euler (snd sm)) Y) (vget (eulerTarget (snd sm)) Y))"
      using assms(3) by (auto simp add: yawSettled_def)
    then show ?thesis
      by (simp add: advanceYaw_def Let_def)
  qed
  have "fst (followPath M object 0 sm) = Inr sm"
    using followPath_no_retarget [OF assms(1), where dt = 0 and M = M and object = object] assms(2)
    by (simp add: a y)
  moreover have "snd (followPath M object 0 sm) = True" by (simp add: followPath_def)
  ultimately show ?thesis by (simp add: prod_eq_iff)
qed

text \<open>Evaluations of the helper instance and of the first updates of the examples.\<close>

lemma angleDist_spec_near:
  assumes "- pi \<le> b - a" and "b - a < pi"
  shows "angleDist_spec a b = b - a"
proof -
  have "0 \<le> (b - a + pi) / (2 * pi)" using assms(1) by simp
  moreover have "(b - a + pi) / (2 * pi) < 1" using assms(2) by simp
  ultimately have "\<lfloor>(b - a + pi) / (2 * pi)\<rfloor> = 0" by (simp add: floor_eq_iff)
  then show ?thesis by (simp add: angleDist_spec_def Let_def)
qed

lemma angleDist_spec_far:
  assumes "pi \<le> b - a" and "b - a < 3 * pi"
  shows "angleDist_spec a b = b - a - 2 * pi"
proof -
  have "1 \<le> (b - a + pi) / (2 * pi)" using assms(1) by simp
  moreover have "(b - a + pi) / (2 * pi) < 2" using assms(2) by (simp add: divide_less_eq)
  ultimately have "\<lfloor>(b - a + pi) / (2 * pi)\<rfloor> = 1" by (simp add: floor_eq_iff)
  then show ?thesis by (simp add: angleDist_spec_def Let_def)
qed

lemma gl_dist_examples:
  "vec3_dist glMatrix (0, - 1, 8) (0, - 1, 4) = 4"
  "vec3_dist glMatrix (0, - 1, 4) (0, - 1, 3) = 1"
  by (simp_all add: glMatrix_def gl_dist_def vec3_sub_def vec3_length_def sqrt_squares double_ints)

lemma start_frame:
  "followPathStart glMatrix (exampleObject 0) (exampleStart 0) =
     Inr ((exampleStart 0)\<lparr>base := mat4_identity, pathIndex := 2, pos := (0, - 1, 4),
            target := (0, - 1, 8), euler := (0, pi, 0), velocity := (0, 0, 2)\<rparr>)"
  apply (simp add: followPathStart_def findPathStartIndex_example_0 exampleStart_def exampleParams_def)
  apply (simp add: pathPoint_def examplePath_def exampleObject_def exampleBox_def Let_def
      Math_atan2_def glMatrix_def normToLength_spec_def vec3_sub_def vec3_length_def vec3_scale_def sqrt_squares)
  done

lemma ad: "angleDist_spec pi 0 = - pi"
  using angleDist_spec_near [where a = pi and b = 0] by simp

lemma first_frame:
  "followPath glMatrix (exampleObject 0) 0 (mat4_identity, exampleStart 0) =
     (Inr (mat4_identity, startedState), True)"
  apply (simp add: followPath_def start_frame)
  apply (simp add: startedState_def exampleStart_def Let_def advanceYaw_def gl_dist_def double_ints vec3_sub_def
      vec3_length_def sqrt_squares glMatrix_def ad)
  done

lemma ad_before: "angleDist_spec (pi - 1 / 2) pi = 1 / 2"
  using angleDist_spec_near [where a = "pi - 1 / 2" and b = pi] pi_ge_two by simp

lemma ad_turn: "angleDist_spec 0 (3 * pi / 2) = - (pi / 2)"
  using angleDist_spec_far [where a = 0 and b = "3 * pi / 2"] by simp

lemma ad_after: "angleDist_spec (- (pi / 4)) (3 * pi / 2) = - (pi / 4)"
  using angleDist_spec_far [where a = "- (pi / 4)" and b = "3 * pi / 2"] by simp

lemma turn_idle:
  "followPath glMatrix (exampleObject 0) 0 (mat4_identity, turnState) =
     (Inr (mat4_identity, turnState), True)"
  by (simp add: followPath_def turnState_def exampleStart_def Let_def advanceYaw_def
      gl_dist_def double_ints vec3_sub_def vec3_length_def glMatrix_def ad_before)

lemma turn_next:
  "targetNextPoint glMatrix turnState 1 =
     Inr (turnState\<lparr>pos := (0, - 1, 4), pathIndex := 2, target := (4, - 1, 4),
            euler := (0, 0, 0), eulerTarget := (0, 3 * pi / 2, 0),
            eulerStep := (0, - (pi / 4), 0), velocity := (2, 0, 0)\<rparr>)"
  apply (simp add: targetNextPoint_def turnState_def exampleStart_def exampleParams_def turnPath_def
      pathPoint_def Let_def)
  apply (simp add: vec3_sub_def vec3_length_def sqrt_squares glMatrix_def getMatrixAxisZ_spec_def
      mat4_identity_def Math_atan2_def yawStep_def js_div_def ad_turn normToLength_spec_def vec3_scale_def)
  done

lemma turn_quarter:
  "followPath glMatrix (exampleObject 0) (1 / 4) (mat4_identity, turnState\<lparr>final := mat4_identity\<rparr>) =
     (Inr (mat4_identity, turnState\<lparr>euler := (0, pi - 39 / 80, 0), pos := (0, - 1, 7 / 2)\<rparr>), True)"
proof -
  have "angleDist_spec (pi - 39 / 80) pi = 39 / 80"
    using angleDist_spec_near [where a = "pi - 39 / 80" and b = pi] pi_ge_two by simp
  then show ?thesis
    by (simp add: followPath_def turnState_def exampleStart_def Let_def advanceYaw_def
      gl_dist_def double_ints vec3_sub_def vec3_length_def glMatrix_def vec3_scaleAndAdd_def)
qed

subsection \<open>The path index\<close>

text \<open>
  C1 (a defect of the code). The first block of \<^verbatim>\<open>followPath\<close> increments the start
  index without the wrap that \<^verbatim>\<open>targetNextPoint\<close> applies. On the path of three
  waypoints, for an object spawned nearest to the last one, \<^verbatim>\<open>findPathStartIndex\<close>
  returns 2, the path index becomes 3, the number of waypoints, and the target is read
  past the end of the path.
\<close>

theorem start_at_last_waypoint:
  "length examplePath = 4 * 3
   \<and> findPathStartIndex glMatrix (pos (exampleStart 7)) (pathPoints (parameters (exampleStart 7))) = Inr 2
   \<and> followPath glMatrix (exampleObject 7) 1 (mat4_identity, exampleStart 7) =
       (Inl (UndefinedRead 3), True)"
  apply (simp add: followPath_def followPathStart_def exampleStart_def exampleParams_def
      findPathStartIndex_example_7)
  apply (simp add: pathPoint_def examplePath_def)
  done

subsection \<open>An update with delta time 0\<close>

text \<open>
  C2, as amended. In a state left by an update of \<^verbatim>\<open>followPath\<close>, also after
  \<^verbatim>\<open>prepareToRender\<close> has rebuilt \<open>final\<close> and another object has used the scratch
  matrix, and with the position at a positive distance from the target, an update with
  delta time 0 changes nothing: the position, the Euler angles, the path index and the
  rest of the motion state are as before.
\<close>

theorem zero_delta_unchanged:
  assumes "fst (followPath M object dt0 sm0) = Inr sm"
    and "0 < vec3_dist M (target (snd sm)) (pos (snd sm))"
  shows "followPath M object 0 (s, (snd sm)\<lparr>final := f\<rparr>) = (Inr (s, (snd sm)\<lparr>final := f\<rparr>), True)"
proof -
  have "0 \<le> pathIndex (snd sm) \<and> yawSettled M (snd sm)"
    using followPath_post [OF assms(1)] .
  then show ?thesis
    using assms(2) by (intro zero_delta_static) (simp_all add: yawSettled_def)
qed

theorem zero_delta_unchanged_witness:
  "fst (followPath glMatrix (exampleObject 0) 0 (mat4_identity, exampleStart 0)) =
     Inr (mat4_identity, startedState)
   \<and> 0 < vec3_dist glMatrix (target startedState) (pos startedState)
   \<and> followPath glMatrix (exampleObject 0) 0 (mat4_identity, startedState\<lparr>final := mat4_identity\<rparr>) =
       (Inr (mat4_identity, startedState\<lparr>final := mat4_identity\<rparr>), True)"
proof -
  have h1: "fst (followPath glMatrix (exampleObject 0) 0 (mat4_identity, exampleStart 0)) =
     Inr (mat4_identity, startedState)"
    by (simp add: first_frame)
  have h2: "0 < vec3_dist glMatrix (target (snd (mat4_identity, startedState))) (pos (snd (mat4_identity, startedState)))"
    by (simp add: startedState_def gl_dist_examples)
  show ?thesis
    using zero_delta_unchanged [OF h1 h2, of mat4_identity mat4_identity] h1 h2 by simp
qed

text \<open>In the uninitialized state the update initializes the follower, whatever the delta
  time: with delta time 0 the path index goes from \<open>- 1\<close> to 2 and the position from the
  spawn point to the start waypoint.\<close>

theorem uninitialized_counterexample:
  "pathIndex (exampleStart 0) = - 1 \<and> pos (exampleStart 0) = (0, 0, 0)
   \<and> followPath glMatrix (exampleObject 0) 0 (mat4_identity, exampleStart 0) =
       (Inr (mat4_identity, startedState), True)
   \<and> pathIndex startedState = 2 \<and> pos startedState = (0, - 1, 4)"
  by (simp add: first_frame) (simp add: exampleStart_def startedState_def)

subsection \<open>The yaw step\<close>

text \<open>
  C4, as amended. Take two consecutive updates of \<^verbatim>\<open>followPath\<close>, the second of which
  does not advance to the next waypoint. The second leaves the yaw target as it is, and
  either snaps the yaw (\<open>euler[1]\<close> is exactly \<open>eulerTarget[1]\<close> and \<open>eulerStep[1]\<close> is 0),
  or advances \<open>euler[1]\<close> by \<open>eulerStep[1] * dt\<close> and keeps the sign of the angular
  distance from \<open>euler[1]\<close> to \<open>eulerTarget[1]\<close>.
\<close>

theorem yaw_no_overshoot:
  assumes "fst (followPath M object dt1 sm0) = Inr sm1"
    and "fst (followPath M object dt2 (s, (snd sm1)\<lparr>final := f\<rparr>)) = Inr sm2"
    and "\<not> vec3_dist M (target (snd sm1)) (pos (snd sm1)) \<le> speed (snd sm1) * dt2"
  shows "vget (eulerTarget (snd sm2)) Y = vget (eulerTarget (snd sm1)) Y
         \<and> ((vget (euler (snd sm2)) Y = vget (eulerTarget (snd sm2)) Y
               \<and> vget (eulerStep (snd sm2)) Y = 0)
            \<or> (vget (euler (snd sm2)) Y = vget (euler (snd sm1)) Y + vget (eulerStep (snd sm1)) Y * dt2
               \<and> vget (eulerStep (snd sm2)) Y = vget (eulerStep (snd sm1)) Y
               \<and> sgn (angleDist M (vget (euler (snd sm2)) Y) (vget (eulerTarget (snd sm2)) Y)) =
                  sgn (angleDist M (vget (euler (snd sm1)) Y) (vget (eulerTarget (snd sm1)) Y))))"
proof -
  let ?m = "(snd sm1)\<lparr>final := f\<rparr>"
  have post: "0 \<le> pathIndex (snd sm1)" "yawSettled M (snd sm1)"
    using followPath_post [OF assms(1)] by simp_all
  let ?sm = "if adjustPitch ?m then adjustBasePitch M dt2 (s, ?m) else (s, ?m)"
  have f: "euler (snd ?sm) = euler (snd sm1)" "eulerStep (snd ?sm) = eulerStep (snd sm1)"
    "eulerTarget (snd ?sm) = eulerTarget (snd sm1)"
    using adjustBasePitch_fields [of M dt2 "(s, ?m)"] by simp_all
  have "fst (followPath M object dt2 (s, ?m)) =
          Inr (fst ?sm, (advanceYaw M dt2 (snd ?sm))\<lparr>pos := vec3_scaleAndAdd (pos ?m) (velocity (snd ?sm)) dt2\<rparr>)"
    using followPath_no_retarget [where sm = "(s, ?m)" and dt = dt2 and M = M and object = object] post(1) assms(3) by simp
  then have sm2: "snd sm2 = (advanceYaw M dt2 (snd ?sm))\<lparr>pos := vec3_scaleAndAdd (pos ?m) (velocity (snd ?sm)) dt2\<rparr>"
    using assms(2) by simp
  show ?thesis
    unfolding sm2 using post(2) f
    by (auto simp add: advanceYaw_def Let_def yawSettled_def)
qed

theorem yaw_no_overshoot_witness:
  "fst (followPath glMatrix (exampleObject 0) 0 (mat4_identity, turnState)) = Inr (mat4_identity, turnState)
   \<and> fst (followPath glMatrix (exampleObject 0) (1 / 4) (mat4_identity, turnState\<lparr>final := mat4_identity\<rparr>)) =
       Inr (mat4_identity, turnState\<lparr>euler := (0, pi - 39 / 80, 0), pos := (0, - 1, 7 / 2)\<rparr>)
   \<and> \<not> vec3_dist glMatrix (target turnState) (pos turnState) \<le> speed turnState * (1 / 4)
   \<and> sgn (angleDist glMatrix (pi - 39 / 80) pi) = sgn (angleDist glMatrix (pi - 1 / 2) pi)"
proof -
  let ?sm2 = "(mat4_identity, turnState\<lparr>euler := (0, pi - 39 / 80, 0), pos := (0, - 1, 7 / 2)\<rparr>)"
  have h1: "fst (followPath glMatrix (exampleObject 0) 0 (mat4_identity, turnState)) = Inr (mat4_identity, turnState)"
    by (simp add: turn_idle)
  have h2: "fst (followPath glMatrix (exampleObject 0) (1 / 4)
      (mat4_identity, (snd (mat4_identity, turnState))\<lparr>final := mat4_identity\<rparr>)) = Inr ?sm2"
    by (simp add: turn_quarter)
  have h3: "\<not> vec3_dist glMatrix (target (snd (mat4_identity, turnState))) (pos (snd (mat4_identity, turnState)))
      \<le> speed (snd (mat4_identity, turnState)) * (1 / 4)"
    by (simp add: turnState_def exampleStart_def gl_dist_examples)
  have ne: "vget (euler (snd ?sm2)) Y \<noteq> vget (eulerTarget (snd ?sm2)) Y"
    by (simp add: turnState_def)
  have v: "vget (euler (snd ?sm2)) Y = pi - 39 / 80" "vget (eulerTarget (snd ?sm2)) Y = pi"
    "vget (euler turnState) Y = pi - 1 / 2" "vget (eulerTarget turnState) Y = pi"
    by (simp_all add: turnState_def)
  have "sgn (angleDist glMatrix (vget (euler (snd ?sm2)) Y) (vget (eulerTarget (snd ?sm2)) Y)) =
        sgn (angleDist glMatrix (vget (euler (snd (mat4_identity, turnState))) Y)
          (vget (eulerTarget (snd (mat4_identity, turnState))) Y))"
    using yaw_no_overshoot [OF h1 h2 h3] ne by blast
  then show ?thesis
    using h1 h2 h3 by (simp add: v)
qed

text \<open>An update that advances to the next waypoint gives the yaw a new target: from
  \<open>turnState\<close> the angular distance is positive before the update and negative after
  it, and the yaw is not snapped (the step is \<open>- pi / 4\<close>, the yaw differs from its
  target).\<close>

theorem retarget_counterexample:
  "followPath glMatrix (exampleObject 0) 0 (mat4_identity, turnState) =
     (Inr (mat4_identity, turnState), True)
   \<and> sgn (angleDist glMatrix (vget (euler turnState) Y) (vget (eulerTarget turnState) Y)) = 1
   \<and> followPath glMatrix (exampleObject 0) 1 (mat4_identity, turnState) =
     (Inr (mat4_identity,
        turnState\<lparr>pos := (2, - 1, 4), pathIndex := 2, target := (4, - 1, 4),
            euler := (0, - (pi / 4), 0), eulerTarget := (0, 3 * pi / 2, 0),
            eulerStep := (0, - (pi / 4), 0), velocity := (2, 0, 0)\<rparr>), True)
   \<and> sgn (angleDist glMatrix (- (pi / 4)) (3 * pi / 2)) = - 1"
proof -
  have d: "vec3_dist glMatrix (target turnState) (pos turnState) \<le> speed turnState * 1"
    by (simp add: turnState_def exampleStart_def gl_dist_examples)
  have a: "\<not> adjustPitch turnState" "\<not> pathIndex turnState < 0" "maxY (bbox (exampleObject 0)) = 1"
    by (simp_all add: turnState_def exampleStart_def exampleObject_def exampleBox_def)
  have f: "followPath glMatrix (exampleObject 0) 1 (mat4_identity, turnState) =
     (Inr (mat4_identity,
        turnState\<lparr>pos := (2, - 1, 4), pathIndex := 2, target := (4, - 1, 4),
            euler := (0, - (pi / 4), 0), eulerTarget := (0, 3 * pi / 2, 0),
            eulerStep := (0, - (pi / 4), 0), velocity := (2, 0, 0)\<rparr>), True)"
    using d a
    apply (simp add: followPath_def turn_next)
    apply (simp add: advanceYaw_def Let_def glMatrix_def ad_after vec3_scaleAndAdd_def)
    done
  have b: "sgn (angleDist glMatrix (vget (euler turnState) Y) (vget (eulerTarget turnState) Y)) = 1"
    by (simp add: turnState_def glMatrix_def ad_before)
  have c: "sgn (angleDist glMatrix (- (pi / 4)) (3 * pi / 2)) = - 1"
    by (simp add: glMatrix_def ad_after)
  show ?thesis using turn_idle f b c by simp
qed

end
